theory Spec2Isabelle
  imports Complex_Main
begin

section \<open>JavaScript values\<close>

text \<open>
  The panel is TypeScript running on Node. Its numbers are IEEE doubles. A finite double is
  modelled by the rational number it denotes; the three non-finite doubles are values of
  their own. The two zeros are not told apart: every zero behaves as \<open>+0\<close>.
\<close>

datatype jsnum = Num rat | PosInfinity | NegInfinity | NaN

text \<open>
  Every arithmetic operation rounds its exact result to the nearest double, a tie to the
  one with the even significand. A double is \<open>m * 2^e\<close> with \<open>\<bar>m\<bar> < 2^53\<close> and
  \<open>-1074 \<le> e \<le> 971\<close>: \<open>exponent_from\<close> finds the least such \<open>e\<close> that makes room for the
  magnitude, \<open>round_half_even\<close> rounds the significand, and a result of magnitude \<open>2^1024\<close>
  is an infinity.
\<close>

definition round_half_even :: "rat \<Rightarrow> int" where
  "round_half_even s =
     (let f = \<lfloor>s\<rfloor>; d = s - of_int f
      in if d < 1 / 2 then f else if 1 / 2 < d then f + 1 else if even f then f else f + 1)"

function exponent_from :: "rat \<Rightarrow> int \<Rightarrow> int" where
  "exponent_from a e = (if 971 \<le> e \<or> a < 2 powi (e + 53) then e else exponent_from a (e + 1))"
  by pat_completeness auto
termination
  by (relation "measure (\<lambda>(a, e). nat (971 - e))") auto

declare exponent_from.simps [simp del]

definition dbl :: "rat \<Rightarrow> jsnum" where
  "dbl q =
     (let e = exponent_from \<bar>q\<bar> (- 1074);
          m = round_half_even (\<bar>q\<bar> / 2 powi e);
          r = of_int m * 2 powi e
      in if 2 ^ 1024 \<le> r then (if 0 < q then PosInfinity else NegInfinity)
         else Num (if 0 \<le> q then r else - r))"

text \<open>The rationals that are doubles: those that rounding leaves as they are.\<close>

definition is_double :: "rat \<Rightarrow> bool" where
  "is_double q = (dbl q = Num q)"

fun js_div :: "jsnum \<Rightarrow> jsnum \<Rightarrow> jsnum" where
  "js_div NaN _ = NaN"
| "js_div _ NaN = NaN"
| "js_div (Num a) (Num b) =
     (if b = 0 then (if a = 0 then NaN else if 0 < a then PosInfinity else NegInfinity)
      else dbl (a / b))"
| "js_div (Num a) _ = Num 0"
| "js_div PosInfinity (Num b) = (if 0 \<le> b then PosInfinity else NegInfinity)"
| "js_div NegInfinity (Num b) = (if 0 \<le> b then NegInfinity else PosInfinity)"
| "js_div _ _ = NaN"

fun js_mul :: "jsnum \<Rightarrow> jsnum \<Rightarrow> jsnum" where
  "js_mul NaN _ = NaN"
| "js_mul _ NaN = NaN"
| "js_mul (Num a) (Num b) = dbl (a * b)"
| "js_mul (Num a) PosInfinity =
     (if a = 0 then NaN else if 0 < a then PosInfinity else NegInfinity)"
| "js_mul (Num a) NegInfinity =
     (if a = 0 then NaN else if 0 < a then NegInfinity else PosInfinity)"
| "js_mul PosInfinity (Num b) =
     (if b = 0 then NaN else if 0 < b then PosInfinity else NegInfinity)"
| "js_mul NegInfinity (Num b) =
     (if b = 0 then NaN else if 0 < b then NegInfinity else PosInfinity)"
| "js_mul PosInfinity PosInfinity = PosInfinity"
| "js_mul PosInfinity NegInfinity = NegInfinity"
| "js_mul NegInfinity PosInfinity = NegInfinity"
| "js_mul NegInfinity NegInfinity = PosInfinity"

fun js_sub :: "jsnum \<Rightarrow> jsnum \<Rightarrow> jsnum" where
  "js_sub NaN _ = NaN"
| "js_sub _ NaN = NaN"
| "js_sub (Num a) (Num b) = dbl (a - b)"
| "js_sub (Num a) PosInfinity = NegInfinity"
| "js_sub (Num a) NegInfinity = PosInfinity"
| "js_sub PosInfinity PosInfinity = NaN"
| "js_sub NegInfinity NegInfinity = NaN"
| "js_sub PosInfinity _ = PosInfinity"
| "js_sub NegInfinity _ = NegInfinity"

text \<open>\<open>Math.floor\<close>.\<close>

fun js_floor :: "jsnum \<Rightarrow> jsnum" where
  "js_floor (Num a) = Num (of_int \<lfloor>a\<rfloor>)"
| "js_floor n = n"

text \<open>
  A value of type \<open>any\<close> that the template only interpolates, and an object all of whose
  properties are of that kind: a property the object does not have reads as \<open>undefined\<close>.
\<close>

datatype jsval = Undefined | Null | JBool bool | JNum jsnum | JStr string

type_synonym jsobj = "string \<Rightarrow> jsval"

text \<open>Reading index \<open>i\<close> of an array: out of range is \<open>undefined\<close>, not an error.\<close>

definition js_index :: "jsval list \<Rightarrow> nat \<Rightarrow> jsval" where
  "js_index xs i = (if i < length xs then xs ! i else Undefined)"

section \<open>Libraries outside the repository\<close>

text \<open>
  The packages \<open>pretty-ms\<close> and \<open>pretty-bytes\<close> and the digits that \<open>Number::toString\<close>
  prints for a finite number that is not an integer below \<open>2^53\<close> (the shortest decimal
  that reads back as the same double) are not part of the repository. They are parameters
  of the model. Both packages raise a \<open>TypeError\<close> on some arguments, so they return a sum.
\<close>

datatype fault = Fault string

record ext =
  numberToString :: "rat \<Rightarrow> string"
  prettyMs :: "jsnum \<Rightarrow> fault + string"
  prettyBytes :: "jsnum \<Rightarrow> fault + string"

section \<open>Numbers as text\<close>

definition digit_char :: "nat \<Rightarrow> char" where
  "digit_char d = ''0123456789'' ! d"

fun decimal :: "nat \<Rightarrow> string" where
  "decimal n = (if n < 10 then [digit_char n] else decimal (n div 10) @ [digit_char (n mod 10)])"

declare decimal.simps [simp del]

text \<open>
  \<open>Number::toString\<close>, as a template literal applies it. It prints the shortest decimal
  that reads back as the same double: for an integer of magnitude below \<open>2^53\<close> these are
  its decimal digits; every other finite number is left to the parameter.
\<close>

fun number_toString :: "ext \<Rightarrow> jsnum \<Rightarrow> string" where
  "number_toString x NaN = ''NaN''"
| "number_toString x PosInfinity = ''Infinity''"
| "number_toString x NegInfinity = ''-Infinity''"
| "number_toString x (Num q) =
     (if of_int \<lfloor>q\<rfloor> = q \<and> \<bar>q\<bar> < 2 ^ 53
      then (if q < 0 then ''-'' else []) @ decimal (nat \<bar>\<lfloor>q\<rfloor>\<bar>)
      else numberToString x q)"

text \<open>The string a template literal puts in place of \<open>${v}\<close>.\<close>

fun interp :: "ext \<Rightarrow> jsval \<Rightarrow> string" where
  "interp x Undefined = ''undefined''"
| "interp x Null = ''null''"
| "interp x (JBool b) = (if b then ''true'' else ''false'')"
| "interp x (JNum n) = number_toString x n"
| "interp x (JStr s) = s"

text \<open>
  \<open>Number.prototype.toFixed(2)\<close>. For a finite \<open>q\<close> with \<open>0 \<le> q < 10^21\<close> it takes the
  integer \<open>n\<close> with \<open>n / 100\<close> nearest to \<open>q\<close>, the larger one of two, and prints \<open>n\<close> with a
  point before its last two digits; a negative number prints \<open>-\<close> and then its magnitude;
  from \<open>10^21\<close> on and for the non-finite values it prints what \<open>toString\<close> prints. It never
  raises.
\<close>

definition hundredths :: "rat \<Rightarrow> nat" where
  "hundredths q = nat \<lfloor>q * 100 + 1 / 2\<rfloor>"

definition fixed2 :: "rat \<Rightarrow> string" where
  "fixed2 q =
     (let n = hundredths q
      in decimal (n div 100) @ ''.'' @ [digit_char (n mod 100 div 10), digit_char (n mod 10)])"

fun toFixed2 :: "ext \<Rightarrow> jsnum \<Rightarrow> string" where
  "toFixed2 x (Num q) =
     (if 10 ^ 21 \<le> \<bar>q\<bar> then number_toString x (Num q)
      else if q < 0 then ''-'' @ fixed2 (- q)
      else fixed2 q)"
| "toFixed2 x n = number_toString x n"

text \<open>
  Reading a printed number back: the digits, the number they write, and the shape
  \<open>digits . digit digit\<close> of a number printed with two decimals.
\<close>

definition is_digit :: "char \<Rightarrow> bool" where
  "is_digit c = (c \<in> set ''0123456789'')"

definition digit_value :: "char \<Rightarrow> nat" where
  "digit_value c = of_char c - 48"

definition read_nat :: "string \<Rightarrow> nat" where
  "read_nat s = foldl (\<lambda>a c. 10 * a + digit_value c) 0 s"

definition two_decimals :: "string \<Rightarrow> bool" where
  "two_decimals s =
     (case rev s of
        d2 # d1 # point # whole \<Rightarrow>
          is_digit d2 \<and> is_digit d1 \<and> point = CHR ''.'' \<and> whole \<noteq> []
            \<and> list_all is_digit whole
      | _ \<Rightarrow> False)"

section \<open>What the probes return\<close>

text \<open>
  The shapes are those of the packages' results as the panel reads them. A property the
  panel computes with is a number; a property it only prints is a \<open>jsval\<close>; an object it
  only prints properties of is a \<open>jsobj\<close>. Field names are the property names, prefixed
  where two objects share one.
\<close>

record cacheData =
  cache_l1d :: jsnum
  cache_l1i :: jsnum
  cache_l2 :: jsnum
  cache_l3 :: jsnum

record cpuData =
  cpu_any :: jsobj
  cpu_cache :: cacheData

record graphicsData =
  controllers :: "jsobj list"
  displays :: "jsobj list"

text \<open>An element of \<open>memLayout\<close> or \<open>diskLayout\<close>: \<open>size: number\<close>, every other property \<open>any\<close>.\<close>

record layoutData =
  layout_size :: jsnum
  layout_any :: jsobj

record staticData =
  os :: jsobj
  system :: jsobj
  baseboard :: jsobj
  bios :: jsobj
  cpu :: cpuData
  graphics :: graphicsData
  memLayout :: "layoutData list"
  diskLayout :: "layoutData list"
  versions :: jsobj

record timeData =
  time_uptime :: jsnum
  time_timezone :: jsval
  time_timezoneName :: jsval

record cpuLoadData =
  cpu_load :: jsnum

record currentLoadData =
  load_avgLoad :: jsval
  load_cpus :: "cpuLoadData list"

record coresData =
  cores :: "jsval list"

record processesData =
  proc_all :: jsval
  proc_running :: jsval
  proc_sleeping :: jsval
  proc_blocked :: jsval
  proc_unknown :: jsval

record memData =
  mem_total :: jsnum
  mem_free :: jsnum
  mem_used :: jsnum
  mem_active :: jsnum
  mem_buffcache :: jsnum
  mem_swaptotal :: jsnum
  mem_swapused :: jsnum
  mem_swapfree :: jsnum

record fsSizeData =
  fs_fs :: jsval
  fs_type :: jsval
  fs_size :: jsnum
  fs_used :: jsnum
  fs_available :: jsval
  fs_use :: jsval
  fs_mount :: jsval

text \<open>The object the panel builds for each file system: the same properties and three more.\<close>

record storageData = fsSizeData +
  prettySize :: string
  prettyUsed :: string
  prettyFree :: string

text \<open>The local \<open>input\<close> of \<open>_getHtmlForWebview\<close>: the snapshot the template reads.\<close>

record input =
  staticData :: staticData
  locale_val :: jsval
  listeningIp :: jsval
  time :: timeData
  prettyUptime :: string
  prettyCurrent :: string
  avgload :: "jsnum \<times> jsnum \<times> jsnum"
  currentLoad :: currentLoadData
  processes :: processesData
  memoryUsage :: memData
  fsSize :: "storageData list"
  cpuCurrentspeed :: coresData
  cpuTemp :: coresData

section \<open>Arrays in a template\<close>

text \<open>
  \<open>Array.prototype.map\<close> calls its function on each element with the element's index, from
  the first element to the last, and collects the results in that order.
\<close>

fun map_from :: "nat \<Rightarrow> ('a \<Rightarrow> nat \<Rightarrow> 'b) \<Rightarrow> 'a list \<Rightarrow> 'b list" where
  "map_from k f [] = []"
| "map_from k f (a # as) = f a k # map_from (Suc k) f as"

definition array_map :: "('a \<Rightarrow> nat \<Rightarrow> 'b) \<Rightarrow> 'a list \<Rightarrow> 'b list" where
  "array_map f as = map_from 0 f as"

text \<open>
  \<open>Array.prototype.join\<close>. A template literal that interpolates an array prints
  \<open>join(",")\<close> of it: the elements with a comma between neighbours.
\<close>

fun join :: "string \<Rightarrow> string list \<Rightarrow> string" where
  "join sep [] = []"
| "join sep [s] = s"
| "join sep (s # t # ss) = s @ sep @ join sep (t # ss)"

definition interp_array :: "string list \<Rightarrow> string" where
  "interp_array ss = join '','' ss"

section \<open>The template\<close>

text \<open>
  The document is one template literal. Its constant text is kept without the white
  space between tags, without the constant attributes (\<open>class\<close>, \<open>role\<close>, \<open>scope\<close>,
  \<open>aria-valuemin\<close>, \<open>aria-valuemax\<close>, the \<open>style\<close> of a column heading, the single
  quotes inside the content security policy of the head) and without the \<open>div\<close> elements
  that only carry a class around a card and its table; every interpolation is kept, in its
  place. The definitions below are the constant text that the literal repeats around its
  cells.
\<close>

definition dq :: string where
  "dq = [CHR 0x22]"

definition kv_row :: "string \<Rightarrow> string \<Rightarrow> string" where
  "kv_row label v = ''<tr><td>'' @ label @ ''</td><td>'' @ v @ ''</td></tr>''"

definition progress_bar :: "string \<Rightarrow> string" where
  "progress_bar w = ''<div style='' @ dq @ ''width: '' @ w @ ''%;'' @ dq @ ''></div>''"

definition card_html :: "string \<Rightarrow> string \<Rightarrow> string \<Rightarrow> string" where
  "card_html title thead rows =
     ''<div><h6>'' @ title @ ''</h6><table>'' @ thead @ ''<tbody>'' @ rows
       @ ''</tbody></table></div>''"

subsection \<open>System Vital\<close>

definition avgload_text :: "ext \<Rightarrow> input \<Rightarrow> string" where
  "avgload_text x i =
     (case avgload i of (a0, a1, a2) \<Rightarrow>
        toFixed2 x a0 @ '' '' @ toFixed2 x a1 @ '' '' @ toFixed2 x a2)"

definition processes_text :: "ext \<Rightarrow> input \<Rightarrow> string" where
  "processes_text x i =
     interp x (proc_all (processes i)) @ '' ('' @ interp x (proc_running (processes i))
       @ '' running, '' @ interp x (proc_sleeping (processes i))
       @ '' sleeping, '' @ interp x (proc_blocked (processes i))
       @ '' blocked, '' @ interp x (proc_unknown (processes i)) @ '' unknown)''"

definition listening_ip_text :: "ext \<Rightarrow> input \<Rightarrow> string" where
  "listening_ip_text x i = interp x (listeningIp i)"

definition system_vital :: "ext \<Rightarrow> input \<Rightarrow> string" where
  "system_vital x i =
     card_html ''System Vital'' []
       (kv_row ''Canonical Hostname'' (interp x (os (staticData i) ''hostname''))
        @ kv_row ''Listening IP'' (listening_ip_text x i)
        @ kv_row ''Kernel Version'' (interp x (versions (staticData i) ''kernel''))
        @ kv_row ''Distro Name'' (interp x (os (staticData i) ''distro''))
        @ kv_row ''Uptime'' (prettyUptime i)
        @ kv_row ''Average load''
            (''<div>'' @ avgload_text x i @ ''</div><div><div><div style='' @ dq
              @ ''width: '' @ interp x (load_avgLoad (currentLoad i)) @ ''%;'' @ dq
              @ '' aria-valuenow='' @ dq @ interp x (load_avgLoad (currentLoad i)) @ dq
              @ ''></div></div><div>'' @ interp x (load_avgLoad (currentLoad i))
              @ ''%</div></div>'')
        @ kv_row ''System Language'' (interp x (locale_val i))
        @ kv_row ''Local time'' (prettyCurrent i)
        @ kv_row ''Time zone'' (interp x (time_timezone (time i)))
        @ kv_row ''Time zone name'' (interp x (time_timezoneName (time i)))
        @ kv_row ''Processes'' (processes_text x i))"

subsection \<open>CPU Usage\<close>

definition cpu_speed_text :: "ext \<Rightarrow> input \<Rightarrow> nat \<Rightarrow> string" where
  "cpu_speed_text x i index = interp x (js_index (cores (cpuCurrentspeed i)) index) @ '' Ghz''"

definition cpu_temp_text :: "ext \<Rightarrow> input \<Rightarrow> nat \<Rightarrow> string" where
  "cpu_temp_text x i index = interp x (js_index (cores (cpuTemp i)) index)"

definition cpu_row :: "ext \<Rightarrow> input \<Rightarrow> cpuLoadData \<Rightarrow> nat \<Rightarrow> string" where
  "cpu_row x i c index =
     ''<tr><td>Core '' @ decimal (index + 1) @ ''</td><td><div>''
       @ progress_bar (number_toString x (cpu_load c))
       @ ''</div><div>'' @ toFixed2 x (cpu_load c) @ ''%</div></td><td>''
       @ cpu_speed_text x i index @ ''</td><td>'' @ cpu_temp_text x i index @ ''</td></tr>''"

definition cpu_rows :: "ext \<Rightarrow> input \<Rightarrow> string list" where
  "cpu_rows x i = array_map (cpu_row x i) (load_cpus (currentLoad i))"

definition cpu_usage :: "ext \<Rightarrow> input \<Rightarrow> string" where
  "cpu_usage x i =
     card_html ''CPU Usage'' ''<thead><th>Core</th><th>Load</th><th>Speed</th><th>Temp</th></thead>''
       (interp_array (cpu_rows x i))"

subsection \<open>Memory Usage\<close>

text \<open>\<open>a / b * 100\<close> and \<open>n / 1024 / 1024 / 1024\<close>, as the template writes them.\<close>

definition ratio100 :: "jsnum \<Rightarrow> jsnum \<Rightarrow> jsnum" where
  "ratio100 a b = js_mul (js_div a b) (Num 100)"

definition gib :: "jsnum \<Rightarrow> jsnum" where
  "gib n = js_div (js_div (js_div n (Num 1024)) (Num 1024)) (Num 1024)"

definition gb_text :: "ext \<Rightarrow> jsnum \<Rightarrow> string" where
  "gb_text x n = toFixed2 x (gib n) @ '' GB''"

definition physical_usage_text :: "ext \<Rightarrow> memData \<Rightarrow> string" where
  "physical_usage_text x m = toFixed2 x (ratio100 (mem_used m) (mem_total m)) @ ''%''"

definition swap_usage_text :: "ext \<Rightarrow> memData \<Rightarrow> string" where
  "swap_usage_text x m = toFixed2 x (ratio100 (mem_swapused m) (mem_swaptotal m)) @ ''%''"

definition physical_row :: "ext \<Rightarrow> memData \<Rightarrow> string" where
  "physical_row x m =
     ''<tr><td>Physical</td><td><div>''
       @ progress_bar (number_toString x (ratio100 (mem_active m) (mem_total m)))
       @ progress_bar (number_toString x (ratio100 (mem_buffcache m) (mem_total m)))
       @ ''</div><div>'' @ physical_usage_text x m
       @ '' (active: '' @ toFixed2 x (ratio100 (mem_active m) (mem_total m))
       @ ''%, buffcache: '' @ toFixed2 x (ratio100 (mem_buffcache m) (mem_total m))
       @ ''%)</div></td><td>'' @ gb_text x (mem_free m)
       @ ''</td><td>'' @ gb_text x (mem_used m)
       @ ''</td><td>'' @ gb_text x (mem_total m) @ ''</td></tr>''"

definition swap_row :: "ext \<Rightarrow> memData \<Rightarrow> string" where
  "swap_row x m =
     ''<tr><td>SWAP</td><td><div>''
       @ progress_bar (number_toString x (ratio100 (mem_swapused m) (mem_swaptotal m)))
       @ ''</div><div>'' @ swap_usage_text x m
       @ ''</div></td><td>'' @ gb_text x (mem_swapfree m)
       @ ''</td><td>'' @ gb_text x (mem_swapused m)
       @ ''</td><td>'' @ gb_text x (mem_swaptotal m) @ ''</td></tr>''"

definition memory_usage :: "ext \<Rightarrow> input \<Rightarrow> string" where
  "memory_usage x i =
     card_html ''Memory Usage''
       ''<thead><tr><th>Type</th><th>Usage</th><th>Free</th><th>Used</th><th>Total</th></tr></thead>''
       (physical_row x (memoryUsage i) @ swap_row x (memoryUsage i))"

subsection \<open>Storage Usage\<close>

definition storage_row :: "ext \<Rightarrow> storageData \<Rightarrow> nat \<Rightarrow> string" where
  "storage_row x st index =
     ''<tr><td>'' @ interp x (fs_mount st) @ ''</td><td>'' @ interp x (fs_type st)
       @ ''</td><td>'' @ interp x (fs_fs st) @ ''</td><td><div>''
       @ progress_bar (number_toString x (ratio100 (fs_used st) (fs_size st)))
       @ ''</div><div>'' @ toFixed2 x (ratio100 (fs_used st) (fs_size st))
       @ ''%</div></td><td>'' @ prettyFree st @ ''</td><td>'' @ prettyUsed st
       @ ''</td><td>'' @ prettySize st @ ''</td></tr>''"

definition storage_rows :: "ext \<Rightarrow> input \<Rightarrow> string list" where
  "storage_rows x i = array_map (storage_row x) (fsSize i)"

definition storage_thead :: string where
  "storage_thead =
     ''<thead><tr><th>Mount</th><th>Type</th><th>Fs</th><th>Usage</th><th>Free</th><th>Used</th><th>Total</th></tr></thead>''"

definition storage_usage :: "ext \<Rightarrow> input \<Rightarrow> string" where
  "storage_usage x i = card_html ''Storage Usage'' storage_thead (interp_array (storage_rows x i))"

subsection \<open>The cards of static data\<close>

definition os_card :: "ext \<Rightarrow> input \<Rightarrow> string" where
  "os_card x i =
     card_html ''Operating system'' []
       (kv_row ''Platform'' (interp x (os (staticData i) ''platform''))
        @ kv_row ''Distro'' (interp x (os (staticData i) ''distro''))
        @ kv_row ''Release'' (interp x (os (staticData i) ''release''))
        @ kv_row ''Codename'' (interp x (os (staticData i) ''codename''))
        @ kv_row ''Kernel'' (interp x (os (staticData i) ''kernel''))
        @ kv_row ''Arch'' (interp x (os (staticData i) ''arch''))
        @ kv_row ''Hostname'' (interp x (os (staticData i) ''hostname''))
        @ kv_row ''Logofile'' (interp x (os (staticData i) ''logofile'')))"

definition system_card :: "ext \<Rightarrow> input \<Rightarrow> string" where
  "system_card x i =
     card_html ''System'' []
       (kv_row ''Manufacturer'' (interp x (system (staticData i) ''manufacturer''))
        @ kv_row ''Model'' (interp x (system (staticData i) ''model''))
        @ kv_row ''Version'' (interp x (system (staticData i) ''version''))
        @ kv_row ''Serial'' (interp x (system (staticData i) ''serial''))
        @ kv_row ''UUID'' (interp x (system (staticData i) ''uuid''))
        @ kv_row ''SKU'' (interp x (system (staticData i) ''sku'')))"

definition baseboard_card :: "ext \<Rightarrow> input \<Rightarrow> string" where
  "baseboard_card x i =
     card_html ''Baseboard'' []
       (kv_row ''Manufacturer'' (interp x (baseboard (staticData i) ''manufacturer''))
        @ kv_row ''Model'' (interp x (baseboard (staticData i) ''model''))
        @ kv_row ''Version'' (interp x (baseboard (staticData i) ''version''))
        @ kv_row ''Serial'' (interp x (baseboard (staticData i) ''serial''))
        @ kv_row ''AssetTag'' (interp x (baseboard (staticData i) ''assetTag'')))"

definition bios_card :: "ext \<Rightarrow> input \<Rightarrow> string" where
  "bios_card x i =
     card_html ''Bios'' []
       (kv_row ''Vendor'' (interp x (bios (staticData i) ''vendor''))
        @ kv_row ''Version'' (interp x (bios (staticData i) ''version''))
        @ kv_row ''ReleaseDate'' (interp x (bios (staticData i) ''releaseDate''))
        @ kv_row ''Revision'' (interp x (bios (staticData i) ''revision'')))"

text \<open>\<open>(n / 1024 / 1024).toFixed(2)\<close> and the unit that follows it.\<close>

definition mb_text :: "ext \<Rightarrow> jsnum \<Rightarrow> string" where
  "mb_text x n = toFixed2 x (js_div (js_div n (Num 1024)) (Num 1024)) @ '' MB''"

definition cache_table :: "ext \<Rightarrow> cacheData \<Rightarrow> string" where
  "cache_table x c =
     ''<table><tbody>'' @ kv_row ''L1D'' (mb_text x (cache_l1d c))
       @ kv_row ''L1I'' (mb_text x (cache_l1i c))
       @ kv_row ''L2'' (mb_text x (cache_l2 c))
       @ kv_row ''L3'' (mb_text x (cache_l3 c)) @ ''</tbody></table>''"

definition cpu_card :: "ext \<Rightarrow> input \<Rightarrow> string" where
  "cpu_card x i =
     card_html ''CPU'' []
       (kv_row ''Manufacturer'' (interp x (cpu_any (cpu (staticData i)) ''manufacturer''))
        @ kv_row ''Brand'' (interp x (cpu_any (cpu (staticData i)) ''brand''))
        @ kv_row ''Vendor'' (interp x (cpu_any (cpu (staticData i)) ''vendor''))
        @ kv_row ''Family'' (interp x (cpu_any (cpu (staticData i)) ''family''))
        @ kv_row ''Model'' (interp x (cpu_any (cpu (staticData i)) ''model''))
        @ kv_row ''Stepping'' (interp x (cpu_any (cpu (staticData i)) ''stepping''))
        @ kv_row ''Revision'' (interp x (cpu_any (cpu (staticData i)) ''revision''))
        @ kv_row ''Voltage'' (interp x (cpu_any (cpu (staticData i)) ''voltage''))
        @ kv_row ''Speed'' (interp x (cpu_any (cpu (staticData i)) ''speed'') @ '' Ghz'')
        @ kv_row ''Speedmin'' (interp x (cpu_any (cpu (staticData i)) ''speedmin'') @ '' Ghz'')
        @ kv_row ''Speedmax'' (interp x (cpu_any (cpu (staticData i)) ''speedmax'') @ '' Ghz'')
        @ kv_row ''Cores'' (interp x (cpu_any (cpu (staticData i)) ''cores''))
        @ kv_row ''Cache'' (cache_table x (cpu_cache (cpu (staticData i))))
        @ kv_row ''flags'' (interp x (cpu_any (cpu (staticData i)) ''flags'')))"

subsection \<open>The cards of lists\<close>

text \<open>
  Each element of a list is printed as one table row that holds the element's number and a
  table of the element's properties. The GPU list numbers from \<open>index\<close> and joins its rows
  with the empty string; the other lists number from \<open>index + 1\<close> and are interpolated
  as arrays.
\<close>

definition sub_table :: "string \<Rightarrow> string \<Rightarrow> string" where
  "sub_table number rows =
     ''<tr><td>'' @ number @ ''</td><td><table><tbody>'' @ rows @ ''</tbody></table></td></tr>''"

definition gpu_row :: "ext \<Rightarrow> jsobj \<Rightarrow> nat \<Rightarrow> string" where
  "gpu_row x gpu index =
     sub_table (decimal index)
       (  kv_row ''Model'' (interp x (gpu ''model''))
          @ kv_row ''Vendor'' (interp x (gpu ''vendor''))
          @ kv_row ''Bus'' (interp x (gpu ''bus''))
          @ kv_row ''Vram'' (interp x (gpu ''vram'') @ '' MB'')
          @ kv_row ''VramDynamic'' (interp x (gpu ''vramDynamic'')))"

definition gpu_rows :: "ext \<Rightarrow> input \<Rightarrow> string list" where
  "gpu_rows x i = array_map (gpu_row x) (controllers (graphics (staticData i)))"

definition gpu_card :: "ext \<Rightarrow> input \<Rightarrow> string" where
  "gpu_card x i = card_html ''GPU'' [] (join [] (gpu_rows x i))"

definition display_row :: "ext \<Rightarrow> jsobj \<Rightarrow> nat \<Rightarrow> string" where
  "display_row x display index =
     sub_table (decimal (index + 1))
       (  kv_row ''Model'' (interp x (display ''model''))
          @ kv_row ''main'' (interp x (display ''main''))
          @ kv_row ''builtin'' (interp x (display ''builtin''))
          @ kv_row ''connection'' (interp x (display ''connection''))
          @ kv_row ''resolutionx'' (interp x (display ''resolutionx''))
          @ kv_row ''resolutiony'' (interp x (display ''resolutiony''))
          @ kv_row ''sizex'' (interp x (display ''sizex''))
          @ kv_row ''sizey'' (interp x (display ''sizey''))
          @ kv_row ''pixeldepth'' (interp x (display ''pixeldepth'')))"

definition display_rows :: "ext \<Rightarrow> input \<Rightarrow> string list" where
  "display_rows x i = array_map (display_row x) (displays (graphics (staticData i)))"

definition display_card :: "ext \<Rightarrow> input \<Rightarrow> string" where
  "display_card x i = card_html ''Display'' [] (interp_array (display_rows x i))"

definition mem_row :: "ext \<Rightarrow> layoutData \<Rightarrow> nat \<Rightarrow> string" where
  "mem_row x mem index =
     sub_table (decimal (index + 1))
       (  kv_row ''size'' (gb_text x (layout_size mem))
          @ kv_row ''bank'' (interp x (layout_any mem ''bank''))
          @ kv_row ''type'' (interp x (layout_any mem ''type''))
          @ kv_row ''clockSpeed'' (interp x (layout_any mem ''clockSpeed''))
          @ kv_row ''formFactor'' (interp x (layout_any mem ''formFactor''))
          @ kv_row ''manufacturer'' (interp x (layout_any mem ''manufacturer''))
          @ kv_row ''partNum'' (interp x (layout_any mem ''partNum''))
          @ kv_row ''serialNum'' (interp x (layout_any mem ''serialNum''))
          @ kv_row ''voltageConfigured'' (interp x (layout_any mem ''voltageConfigured''))
          @ kv_row ''voltageMin'' (interp x (layout_any mem ''voltageMin''))
          @ kv_row ''voltageMax'' (interp x (layout_any mem ''voltageMax'')))"

definition mem_rows :: "ext \<Rightarrow> input \<Rightarrow> string list" where
  "mem_rows x i = array_map (mem_row x) (memLayout (staticData i))"

definition memLayout_card :: "ext \<Rightarrow> input \<Rightarrow> string" where
  "memLayout_card x i = card_html ''memLayout'' [] (interp_array (mem_rows x i))"

definition disk_row :: "ext \<Rightarrow> layoutData \<Rightarrow> nat \<Rightarrow> string" where
  "disk_row x disk index =
     sub_table (decimal (index + 1))
       (  kv_row ''type'' (interp x (layout_any disk ''type''))
          @ kv_row ''name'' (interp x (layout_any disk ''name''))
          @ kv_row ''vendor'' (interp x (layout_any disk ''vendor''))
          @ kv_row ''size'' (gb_text x (layout_size disk))
          @ kv_row ''bytesPerSector'' (interp x (layout_any disk ''bytesPerSector''))
          @ kv_row ''totalCylinders'' (interp x (layout_any disk ''totalCylinders''))
          @ kv_row ''totalHeads'' (interp x (layout_any disk ''totalHeads''))
          @ kv_row ''totalSectors'' (interp x (layout_any disk ''totalSectors''))
          @ kv_row ''totalTracks'' (interp x (layout_any disk ''totalTracks''))
          @ kv_row ''tracksPerCylinder'' (interp x (layout_any disk ''tracksPerCylinder''))
          @ kv_row ''sectorsPerTrack'' (interp x (layout_any disk ''sectorsPerTrack''))
          @ kv_row ''firmwareRevision'' (interp x (layout_any disk ''firmwareRevision''))
          @ kv_row ''serialNum'' (interp x (layout_any disk ''serialNum''))
          @ kv_row ''interfaceType'' (interp x (layout_any disk ''interfaceType''))
          @ kv_row ''smartStatus'' (interp x (layout_any disk ''smartStatus'')))"

definition disk_rows :: "ext \<Rightarrow> input \<Rightarrow> string list" where
  "disk_rows x i = array_map (disk_row x) (diskLayout (staticData i))"

definition diskLayout_card :: "ext \<Rightarrow> input \<Rightarrow> string" where
  "diskLayout_card x i = card_html ''diskLayout'' [] (interp_array (disk_rows x i))"

definition versions_card :: "ext \<Rightarrow> input \<Rightarrow> string" where
  "versions_card x i =
     card_html ''Versions'' []
       (kv_row ''kernel'' (interp x (versions (staticData i) ''kernel''))
        @ kv_row ''openssl'' (interp x (versions (staticData i) ''openssl''))
        @ kv_row ''node'' (interp x (versions (staticData i) ''node''))
        @ kv_row ''v8'' (interp x (versions (staticData i) ''v8''))
        @ kv_row ''npm'' (interp x (versions (staticData i) ''npm''))
        @ kv_row ''yarn'' (interp x (versions (staticData i) ''yarn''))
        @ kv_row ''pm2'' (interp x (versions (staticData i) ''pm2''))
        @ kv_row ''gulp'' (interp x (versions (staticData i) ''gulp''))
        @ kv_row ''grunt'' (interp x (versions (staticData i) ''grunt''))
        @ kv_row ''git'' (interp x (versions (staticData i) ''git''))
        @ kv_row ''tsc'' (interp x (versions (staticData i) ''tsc''))
        @ kv_row ''mysql'' (interp x (versions (staticData i) ''mysql''))
        @ kv_row ''redis'' (interp x (versions (staticData i) ''redis''))
        @ kv_row ''mongodb'' (interp x (versions (staticData i) ''mongodb''))
        @ kv_row ''nginx'' (interp x (versions (staticData i) ''nginx''))
        @ kv_row ''php'' (interp x (versions (staticData i) ''php'')))"

subsection \<open>The document\<close>

text \<open>
  The head of the document depends on the colour theme (it picks the style sheet), on the
  webview (it turns a path of the extension into a URI) and on the nonce, 32 characters
  that \<open>getNonce\<close> draws with \<open>Math.random\<close>: the draw is given.
\<close>

datatype colorThemeKind = Light | Dark | HighContrast | OtherTheme

fun bootstapCSSFileName :: "colorThemeKind \<Rightarrow> string" where
  "bootstapCSSFileName Light = ''bootstrap.min.css''"
| "bootstapCSSFileName Dark = ''bootstrap_dark.min.css''"
| "bootstapCSSFileName HighContrast = ''bootstrap_dark.min.css''"
| "bootstapCSSFileName OtherTheme = ''bootstrap.min.css''"

record webview =
  cspSource :: string
  asWebviewUri :: "string \<Rightarrow> string"

definition link_tag :: "string \<Rightarrow> string \<Rightarrow> string" where
  "link_tag nonce href =
     ''<link nonce='' @ dq @ nonce @ dq @ '' href='' @ dq @ href @ dq @ '' rel=stylesheet>''"

definition head_html :: "webview \<Rightarrow> colorThemeKind \<Rightarrow> string \<Rightarrow> string" where
  "head_html w kind nonce =
     ''<head><meta content='' @ dq @ ''default-src none; style-src '' @ cspSource w
       @ ''; img-src '' @ cspSource w @ '' https:; script-src nonce-'' @ nonce @ '';'' @ dq
       @ ''>'' @ link_tag nonce (asWebviewUri w ''media/reset.css'')
       @ link_tag nonce (asWebviewUri w (''media/'' @ bootstapCSSFileName kind))
       @ link_tag nonce (asWebviewUri w ''media/vscode.css'')
       @ ''<title>System Information</title></head>''"

definition cards_before_storage :: "ext \<Rightarrow> input \<Rightarrow> string" where
  "cards_before_storage x i = system_vital x i @ cpu_usage x i @ memory_usage x i"

definition cards_after_storage :: "ext \<Rightarrow> input \<Rightarrow> string" where
  "cards_after_storage x i =
     ''<hr>'' @ os_card x i @ system_card x i @ baseboard_card x i @ bios_card x i
       @ cpu_card x i @ gpu_card x i @ display_card x i @ memLayout_card x i
       @ diskLayout_card x i @ versions_card x i"

definition html_of :: "ext \<Rightarrow> string \<Rightarrow> input \<Rightarrow> string" where
  "html_of x head i =
     ''<!DOCTYPE html><html lang=en>'' @ head @ ''<body><nav>System Information</nav>''
       @ cards_before_storage x i @ storage_usage x i @ cards_after_storage x i
       @ ''</body></html>''"

section \<open>Gathering the snapshot\<close>

text \<open>
  \<open>_getHtmlForWebview\<close> is an \<open>async\<close> function. It calls the probes one after the other
  and awaits each call before it makes the next. A call returns a promise, which is
  fulfilled with a value, rejected with a fault, or never settles. \<open>await\<close> on a fulfilled
  promise goes on with the value; on a rejected one it throws the fault, and nothing in the
  function catches it; on a promise that never settles the function never resumes.  The
  model records which probes were called, in the order of the calls.
\<close>

datatype probe =
  GetStaticData | OsLocale | PublicIpV4 | SiTime | SiCurrentLoad | SiCpuCurrentSpeed
  | SiCpuTemperature | SiProcesses | SiMem | SiFsSize

datatype 'a promise = Fulfilled 'a | Rejected fault | Pending

datatype 'a completion = Returned 'a | Threw fault | Suspended

type_synonym 'a async = "probe list \<Rightarrow> 'a completion \<times> probe list"

fun await :: "probe \<Rightarrow> 'a promise \<Rightarrow> ('a \<Rightarrow> 'b async) \<Rightarrow> 'b async" where
  "await p (Fulfilled v) k called = k v (called @ [p])"
| "await p (Rejected e) k called = (Threw e, called @ [p])"
| "await p Pending k called = (Suspended, called @ [p])"

text \<open>A call that returns at once, with a value or by throwing.\<close>

fun call :: "fault + 'a \<Rightarrow> ('a \<Rightarrow> 'b async) \<Rightarrow> 'b async" where
  "call (Inl e) k called = (Threw e, called)"
| "call (Inr v) k called = k v called"

definition return_async :: "'a \<Rightarrow> 'a async" where
  "return_async v called = (Returned v, called)"

text \<open>
  What the host answers during one request: the promise each probe returns, and the
  values of the calls that return at once (\<open>os.loadavg()\<close>, the local time as
  \<open>toLocaleString\<close> prints it, the colour theme, the webview, the nonce).
\<close>

record host =
  colorTheme :: colorThemeKind
  host_webview :: webview
  host_nonce :: string
  si_getStaticData :: "staticData promise"
  osLocale :: "jsval promise"
  publicIp_v4 :: "jsval promise"
  si_time :: "timeData promise"
  now_toLocaleString :: string
  os_loadavg :: "jsnum \<times> jsnum \<times> jsnum"
  si_currentLoad :: "currentLoadData promise"
  si_cpuCurrentSpeed :: "coresData promise"
  si_cpuTemperature :: "coresData promise"
  si_processes :: "processesData promise"
  si_mem :: "memData promise"
  si_fsSize :: "fsSizeData list promise"

text \<open>
  The function that \<open>fsSizes.map\<close> applies: three calls of \<open>prettyBytes\<close>, in the order
  of the object literal, each of which may throw.
\<close>

definition fsSize_entry :: "ext \<Rightarrow> fsSizeData \<Rightarrow> fault + storageData" where
  "fsSize_entry x d =
     (case prettyBytes x (fs_size d) of
        Inl e \<Rightarrow> Inl e
      | Inr size_text \<Rightarrow>
          (case prettyBytes x (fs_used d) of
             Inl e \<Rightarrow> Inl e
           | Inr used_text \<Rightarrow>
               (case prettyBytes x (js_sub (fs_size d) (fs_used d)) of
                  Inl e \<Rightarrow> Inl e
                | Inr free_text \<Rightarrow>
                    Inr \<lparr>fs_fs = fs_fs d, fs_type = fs_type d, fs_size = fs_size d,
                         fs_used = fs_used d, fs_available = fs_available d,
                         fs_use = fs_use d, fs_mount = fs_mount d,
                         prettySize = size_text, prettyUsed = used_text,
                         prettyFree = free_text\<rparr>)))"

text \<open>\<open>map\<close> with a function that may throw: the first throw ends it.\<close>

fun map_throwing :: "('a \<Rightarrow> fault + 'b) \<Rightarrow> 'a list \<Rightarrow> fault + 'b list" where
  "map_throwing f [] = Inr []"
| "map_throwing f (a # as) =
     (case f a of
        Inl e \<Rightarrow> Inl e
      | Inr b \<Rightarrow> (case map_throwing f as of Inl e \<Rightarrow> Inl e | Inr bs \<Rightarrow> Inr (b # bs)))"

text \<open>
  \<open>prettyMs(Math.floor(parseFloat(time.uptime)) * 1000, {verbose: true})\<close>; \<open>parseFloat\<close> of
  a number gives the number back.
\<close>

definition uptime_text :: "ext \<Rightarrow> timeData \<Rightarrow> fault + string" where
  "uptime_text x t = prettyMs x (js_mul (js_floor (time_uptime t)) (Num 1000))"

definition getHtmlForWebview :: "ext \<Rightarrow> host \<Rightarrow> string completion \<times> probe list" where
  "getHtmlForWebview x h =
     await GetStaticData (si_getStaticData h) (\<lambda>staticData'.
     await OsLocale (osLocale h) (\<lambda>locale'.
     await PublicIpV4 (publicIp_v4 h) (\<lambda>listeningIp'.
     await SiTime (si_time h) (\<lambda>time'.
     call (uptime_text x time') (\<lambda>prettyUptime'.
     await SiCurrentLoad (si_currentLoad h) (\<lambda>currentLoad'.
     await SiCpuCurrentSpeed (si_cpuCurrentSpeed h) (\<lambda>cpuCurrentspeed'.
     await SiCpuTemperature (si_cpuTemperature h) (\<lambda>cpuTemp'.
     await SiProcesses (si_processes h) (\<lambda>processes'.
     await SiMem (si_mem h) (\<lambda>memoryUsage'.
     await SiFsSize (si_fsSize h) (\<lambda>fsSizes.
     call (map_throwing (fsSize_entry x) fsSizes) (\<lambda>fsSize'.
     return_async
       (html_of x (head_html (host_webview h) (colorTheme h) (host_nonce h))
          \<lparr>staticData = staticData', locale_val = locale', listeningIp = listeningIp',
           time = time', prettyUptime = prettyUptime',
           prettyCurrent = now_toLocaleString h, avgload = os_loadavg h,
           currentLoad = currentLoad', processes = processes',
           memoryUsage = memoryUsage', fsSize = fsSize',
           cpuCurrentspeed = cpuCurrentspeed', cpuTemp = cpuTemp'\<rparr>))))))))))))) []"

text \<open>
  \<open>_update\<close> gives the webview the document when the promise of \<open>_getHtmlForWebview\<close> is
  fulfilled. It has no handler for a rejection: then, and when the promise never settles,
  the webview keeps what it showed.
\<close>

definition update :: "ext \<Rightarrow> host \<Rightarrow> string option \<Rightarrow> string option" where
  "update x h shown =
     (case fst (getHtmlForWebview x h) of Returned html \<Rightarrow> Some html | _ \<Rightarrow> shown)"

text \<open>The probes in the order of the calls, and how the promise of each one ends.\<close>

definition probe_order :: "probe list" where
  "probe_order =
     [GetStaticData, OsLocale, PublicIpV4, SiTime, SiCurrentLoad, SiCpuCurrentSpeed,
      SiCpuTemperature, SiProcesses, SiMem, SiFsSize]"

datatype settled = Ok | Failed fault | Never

fun settled_of :: "'a promise \<Rightarrow> settled" where
  "settled_of (Fulfilled v) = Ok"
| "settled_of (Rejected e) = Failed e"
| "settled_of Pending = Never"

fun outcome :: "host \<Rightarrow> probe \<Rightarrow> settled" where
  "outcome h GetStaticData = settled_of (si_getStaticData h)"
| "outcome h OsLocale = settled_of (osLocale h)"
| "outcome h PublicIpV4 = settled_of (publicIp_v4 h)"
| "outcome h SiTime = settled_of (si_time h)"
| "outcome h SiCurrentLoad = settled_of (si_currentLoad h)"
| "outcome h SiCpuCurrentSpeed = settled_of (si_cpuCurrentSpeed h)"
| "outcome h SiCpuTemperature = settled_of (si_cpuTemperature h)"
| "outcome h SiProcesses = settled_of (si_processes h)"
| "outcome h SiMem = settled_of (si_mem h)"
| "outcome h SiFsSize = settled_of (si_fsSize h)"

text \<open>
  The probes that are called before \<open>p\<close>, and whether the call of \<open>prettyMs\<close>, made
  once the time probe is fulfilled, returns.
\<close>

definition before :: "probe \<Rightarrow> probe list" where
  "before p = takeWhile (\<lambda>q. q \<noteq> p) probe_order"

definition uptime_text_returns :: "ext \<Rightarrow> host \<Rightarrow> bool" where
  "uptime_text_returns x h =
     (case si_time h of
        Fulfilled t \<Rightarrow> (case uptime_text x t of Inr s \<Rightarrow> True | Inl e \<Rightarrow> False)
      | _ \<Rightarrow> True)"

text \<open>Whether the calls of \<open>prettyBytes\<close>, made once the file systems are known, all return.\<close>

definition storage_texts_return :: "ext \<Rightarrow> host \<Rightarrow> bool" where
  "storage_texts_return x h =
     (case si_fsSize h of
        Fulfilled fss \<Rightarrow>
          (case map_throwing (fsSize_entry x) fss of Inr fs \<Rightarrow> True | Inl e \<Rightarrow> False)
      | _ \<Rightarrow> True)"

section \<open>The panel\<close>

text \<open>
  \<open>SystemMonitorPanel.currentPanel\<close> is one static variable. Instances are numbered in the
  order of their construction. The constructor registers three listeners in the
  instance's \<open>_disposables\<close>; \<open>dispose\<close> clears \<open>currentPanel\<close>, disposes the instance's
  webview panel and pops and disposes its listeners.
\<close>

record panels =
  currentPanel :: "nat option"
  constructed :: nat
  disposables :: "nat \<Rightarrow> string list"
  disposed_listeners :: "(nat \<times> string) list"
  disposed_panels :: "nat list"
  revealed :: "nat list"

definition no_panels :: panels where
  "no_panels =
     \<lparr>currentPanel = None, constructed = 0, disposables = (\<lambda>_. []),
      disposed_listeners = [], disposed_panels = [], revealed = []\<rparr>"

text \<open>\<open>new SystemMonitorPanel(panel, extensionUri)\<close>, and the assignment of both callers.\<close>

definition construct_panel :: "panels \<Rightarrow> panels" where
  "construct_panel s =
     s\<lparr>currentPanel := Some (constructed s),
       constructed := Suc (constructed s),
       disposables := (disposables s)
         (constructed s := [''onDidDispose'', ''onDidChangeViewState'', ''onDidReceiveMessage''])\<rparr>"

definition createOrShow :: "panels \<Rightarrow> panels" where
  "createOrShow s =
     (case currentPanel s of
        Some p \<Rightarrow> s\<lparr>revealed := revealed s @ [p]\<rparr>
      | None \<Rightarrow> construct_panel s)"

definition revive :: "panels \<Rightarrow> panels" where
  "revive s = construct_panel s"

text \<open>The loop of \<open>dispose\<close>: while the list is not empty, pop its last element.\<close>

function pop_all :: "nat \<Rightarrow> string list \<Rightarrow> (nat \<times> string) list \<Rightarrow> (nat \<times> string) list" where
  "pop_all p ds acc = (if ds = [] then acc else pop_all p (butlast ds) (acc @ [(p, last ds)]))"
  by pat_completeness auto
termination
  by (relation "measure (\<lambda>(p, ds, acc). length ds)") auto

declare pop_all.simps [simp del]

definition dispose :: "nat \<Rightarrow> panels \<Rightarrow> panels" where
  "dispose p s =
     s\<lparr>currentPanel := None,
       disposed_panels := disposed_panels s @ [p],
       disposed_listeners := pop_all p (disposables s p) (disposed_listeners s),
       disposables := (disposables s)(p := [])\<rparr>"

text \<open>
  The calls that reach the panel. \<open>dispose\<close> is a method: it can only be called on an
  instance that was constructed.
\<close>

datatype panel_call = CreateOrShow | Revive | Dispose nat

fun panel_step :: "panels \<Rightarrow> panel_call \<Rightarrow> panels" where
  "panel_step s CreateOrShow = createOrShow s"
| "panel_step s Revive = revive s"
| "panel_step s (Dispose p) = (if p < constructed s then dispose p s else s)"

definition run_calls :: "panel_call list \<Rightarrow> panels" where
  "run_calls cs = foldl panel_step no_panels cs"

section \<open>A host to run the model on\<close>

text \<open>
  Stand-ins for the libraries (each returns a fixed text) and the answers of one host: a
  machine with two cores, 16 GiB of memory of which 8 GiB are used and 2 GiB are free, no
  swap, two graphics controllers and two file systems.
\<close>

definition stub_ext :: ext where
  "stub_ext =
     \<lparr>numberToString = (\<lambda>q. ''#''),
      prettyMs = (\<lambda>n. Inr ''2 hours''),
      prettyBytes = (\<lambda>n. Inr ''1 kB'')\<rparr>"

definition obj :: "(string \<times> jsval) list \<Rightarrow> jsobj" where
  "obj kvs k = (case map_of kvs k of None \<Rightarrow> Undefined | Some v \<Rightarrow> v)"

definition sample_static :: staticData where
  "sample_static =
     \<lparr>os = obj [(''hostname'', JStr ''box''), (''distro'', JStr ''Debian'')],
      system = obj [],
      baseboard = obj [],
      bios = obj [],
      cpu = \<lparr>cpu_any = obj [(''cores'', JNum (Num 2))],
             cpu_cache = \<lparr>cache_l1d = Num 65536, cache_l1i = Num 65536,
                          cache_l2 = Num 1048576, cache_l3 = Num 8388608\<rparr>\<rparr>,
      graphics =
        \<lparr>controllers = [obj [(''model'', JStr ''A'')], obj [(''model'', JStr ''B'')]],
         displays = [obj [(''model'', JStr ''D1'')], obj [(''model'', JStr ''D2'')]]\<rparr>,
      memLayout =
        [\<lparr>layout_size = Num 8589934592, layout_any = obj [(''bank'', JStr ''0'')]\<rparr>,
         \<lparr>layout_size = Num 8589934592, layout_any = obj [(''bank'', JStr ''1'')]\<rparr>],
      diskLayout =
        [\<lparr>layout_size = Num 2199023255552, layout_any = obj [(''name'', JStr ''sda'')]\<rparr>,
         \<lparr>layout_size = Num 512, layout_any = obj [(''name'', JStr ''sdb'')]\<rparr>],
      versions = obj [(''kernel'', JStr ''6.1'')]\<rparr>"

definition sample_mem :: memData where
  "sample_mem =
     \<lparr>mem_total = Num 17179869184, mem_free = Num 2147483648, mem_used = Num 8589934592,
      mem_active = Num 4294967296, mem_buffcache = Num 4294967296,
      mem_swaptotal = Num 0, mem_swapused = Num 0, mem_swapfree = Num 0\<rparr>"

definition sample_fs :: "fsSizeData list" where
  "sample_fs =
     [\<lparr>fs_fs = JStr ''/dev/sda1'', fs_type = JStr ''ext4'', fs_size = Num 2048,
       fs_used = Num 1024, fs_available = JNum (Num 1024), fs_use = JNum (Num 50),
       fs_mount = JStr ''/''\<rparr>,
      \<lparr>fs_fs = JStr ''/dev/sdb1'', fs_type = JStr ''ext4'', fs_size = Num 4096,
       fs_used = Num 1024, fs_available = JNum (Num 3072), fs_use = JNum (Num 25),
       fs_mount = JStr ''/home''\<rparr>]"

definition sample_host :: host where
  "sample_host =
     \<lparr>colorTheme = Dark,
      host_webview = \<lparr>cspSource = ''vscode-resource:'', asWebviewUri = (\<lambda>path. path)\<rparr>,
      host_nonce = ''n0nce'',
      si_getStaticData = Fulfilled sample_static,
      osLocale = Fulfilled (JStr ''en-US''),
      publicIp_v4 = Fulfilled (JStr ''203.0.113.7''),
      si_time =
        Fulfilled \<lparr>time_uptime = Num 7200, time_timezone = JStr ''+0000'',
                   time_timezoneName = JStr ''UTC''\<rparr>,
      now_toLocaleString = ''1/1/2021, 12:00:00 PM'',
      os_loadavg = (Num 1, Num 1, Num 1),
      si_currentLoad =
        Fulfilled \<lparr>load_avgLoad = JNum (Num 1),
                   load_cpus = [\<lparr>cpu_load = Num 10\<rparr>, \<lparr>cpu_load = Num 20\<rparr>]\<rparr>,
      si_cpuCurrentSpeed = Fulfilled \<lparr>cores = [JNum (Num 2), JNum (Num 3)]\<rparr>,
      si_cpuTemperature = Fulfilled \<lparr>cores = []\<rparr>,
      si_processes =
        Fulfilled \<lparr>proc_all = JNum (Num 100), proc_running = JNum (Num 1),
                   proc_sleeping = JNum (Num 90), proc_blocked = JNum (Num 0),
                   proc_unknown = JNum (Num 9)\<rparr>,
      si_mem = Fulfilled sample_mem,
      si_fsSize = Fulfilled sample_fs\<rparr>"

text \<open>The snapshot that \<open>_getHtmlForWebview\<close> builds on that host.\<close>

definition sample_input :: input where
  "sample_input =
     \<lparr>staticData = sample_static, locale_val = JStr ''en-US'',
      listeningIp = JStr ''203.0.113.7'',
      time = \<lparr>time_uptime = Num 7200, time_timezone = JStr ''+0000'',
               time_timezoneName = JStr ''UTC''\<rparr>,
      prettyUptime = ''2 hours'', prettyCurrent = ''1/1/2021, 12:00:00 PM'',
      avgload = (Num 1, Num 1, Num 1),
      currentLoad =
        \<lparr>load_avgLoad = JNum (Num 1),
         load_cpus = [\<lparr>cpu_load = Num 10\<rparr>, \<lparr>cpu_load = Num 20\<rparr>]\<rparr>,
      processes =
        \<lparr>proc_all = JNum (Num 100), proc_running = JNum (Num 1),
         proc_sleeping = JNum (Num 90), proc_blocked = JNum (Num 0),
         proc_unknown = JNum (Num 9)\<rparr>,
      memoryUsage = sample_mem,
      fsSize =
        [\<lparr>fs_fs = JStr ''/dev/sda1'', fs_type = JStr ''ext4'', fs_size = Num 2048,
          fs_used = Num 1024, fs_available = JNum (Num 1024), fs_use = JNum (Num 50),
          fs_mount = JStr ''/'', prettySize = ''1 kB'', prettyUsed = ''1 kB'',
          prettyFree = ''1 kB''\<rparr>,
         \<lparr>fs_fs = JStr ''/dev/sdb1'', fs_type = JStr ''ext4'', fs_size = Num 4096,
          fs_used = Num 1024, fs_available = JNum (Num 3072), fs_use = JNum (Num 25),
          fs_mount = JStr ''/home'', prettySize = ''1 kB'', prettyUsed = ''1 kB'',
          prettyFree = ''1 kB''\<rparr>],
      cpuCurrentspeed = \<lparr>cores = [JNum (Num 2), JNum (Num 3)]\<rparr>,
      cpuTemp = \<lparr>cores = []\<rparr>\<rparr>"

section \<open>Rounding to a double\<close>

lemma round_half_even_of_int [simp]: "round_half_even (of_int k) = k"
  by (simp add: round_half_even_def)

lemma round_half_even_near: "\<bar>of_int (round_half_even s) - s\<bar> \<le> 1 / 2"
proof -
  have "of_int \<lfloor>s\<rfloor> \<le> s" "s < of_int \<lfloor>s\<rfloor> + 1" by linarith+
  then show ?thesis
    by (auto simp: round_half_even_def Let_def)
qed

lemma exponent_from_ge: "e \<le> exponent_from a e"
proof (induction a e rule: exponent_from.induct)
  case (1 a e)
  show ?case
  proof (cases "971 \<le> e \<or> a < 2 powi (e + 53)")
    case True
    then show ?thesis by (subst exponent_from.simps) simp
  next
    case False
    with 1 have "e + 1 \<le> exponent_from a (e + 1)" by simp
    with False show ?thesis by (subst exponent_from.simps) simp
  qed
qed

lemma exponent_from_fits:
  "a < 2 ^ 1024 \<Longrightarrow> a < 2 powi (exponent_from a e + 53)"
proof (induction a e rule: exponent_from.induct)
  case (1 a e)
  show ?case
  proof (cases "971 \<le> e \<or> a < 2 powi (e + 53)")
    case True
    note stop = this
    have r: "exponent_from a e = e" using stop by (subst exponent_from.simps) simp
    show ?thesis
    proof (cases "a < 2 powi (e + 53)")
      case True
      then show ?thesis by (simp add: r)
    next
      case False
      with stop have "971 \<le> e" by simp
      then have "(2::rat) powi 1024 \<le> 2 powi (e + 53)"
        by (intro power_int_increasing) simp_all
      with 1(2) show ?thesis by (simp add: r)
    qed
  next
    case False
    then have r: "exponent_from a e = exponent_from a (e + 1)"
      by (subst exponent_from.simps) simp
    from 1(1) [OF False 1(2)] show ?thesis by (simp add: r)
  qed
qed

lemma exponent_from_skipped:
  "e \<le> e' \<Longrightarrow> e' < exponent_from a e \<Longrightarrow> 2 powi (e' + 53) \<le> a"
proof (induction a e rule: exponent_from.induct)
  case (1 a e)
  show ?case
  proof (cases "971 \<le> e \<or> a < 2 powi (e + 53)")
    case True
    then have "exponent_from a e = e" by (subst exponent_from.simps) simp
    with 1(2,3) show ?thesis by simp
  next
    case False
    then have r: "exponent_from a e = exponent_from a (e + 1)"
      by (subst exponent_from.simps) simp
    show ?thesis
    proof (cases "e' = e")
      case True
      with False show ?thesis by simp
    next
      case False
      with 1(2) have "e + 1 \<le> e'" by simp
      from 1(1) [OF \<open>\<not> (971 \<le> e \<or> a < 2 powi (e + 53))\<close> this] 1(3) r show ?thesis by simp
    qed
  qed
qed

lemma exponent_from_least:
  assumes "e \<le> e0" and "a < 2 powi (e0 + 53)"
  shows "exponent_from a e \<le> e0"
proof (rule ccontr)
  assume "\<not> exponent_from a e \<le> e0"
  then have "e0 < exponent_from a e" by simp
  from exponent_from_skipped [OF assms(1) this] assms(2) show False by simp
qed


lemma dbl_nonneg_exact:
  assumes "0 \<le> m" and "m < 2 ^ 53" and "- 1074 \<le> e" and "e \<le> 971"
  shows "dbl (of_int m * 2 powi e) = Num (of_int m * 2 powi e)"
proof -
  let ?q = "of_int m * 2 powi e :: rat"
  define E where "E = exponent_from ?q (- 1074)"
  have q0: "0 \<le> ?q" using assms(1) by simp
  then have aq: "\<bar>?q\<bar> = ?q" by simp
  have "(of_int m :: rat) < 2 ^ 53" using assms(2) by (metis of_int_less_numeral_power_cancel_iff)
  then have "?q < 2 ^ 53 * 2 powi e"
    by (simp add: mult_strict_right_mono)
  also have "\<dots> = 2 powi (e + 53)"
    by (simp add: power_int_add)
  finally have fit: "?q < 2 powi (e + 53)" .
  have Ele: "E \<le> e"
    unfolding E_def using assms(3) fit by (rule exponent_from_least)
  have "(2::rat) powi e = 2 powi (e - E) * 2 powi E"
    by (simp add: power_int_add [symmetric])
  also have "(2::rat) powi (e - E) = 2 ^ nat (e - E)"
    using Ele by (simp add: power_int_nonneg_exp)
  finally have split: "(2::rat) powi e = 2 ^ nat (e - E) * 2 powi E" .
  have s: "?q / 2 powi E = of_int (m * 2 ^ nat (e - E))"
    by (simp add: split)
  have r: "of_int (round_half_even (?q / 2 powi E)) * 2 powi E = ?q"
    unfolding s round_half_even_of_int by (simp add: split)
  have "e + 53 \<le> 1024" using assms(4) by simp
  then have "(2::rat) powi (e + 53) \<le> 2 powi 1024"
    by (intro power_int_increasing) simp_all
  with fit have small: "\<not> 2 ^ 1024 \<le> ?q" by simp
  show ?thesis
    unfolding dbl_def Let_def aq E_def [symmetric] r using small q0 by simp
qed

lemma dbl_relative_error:
  assumes "2 powi (- 1022) \<le> q" and "q < 2 ^ 1023"
  shows "\<exists>r. dbl q = Num r \<and> \<bar>r - q\<bar> \<le> q / 2 ^ 53"
proof -
  define E where "E = exponent_from q (- 1074)"
  have qpos: "0 < q"
    using assms(1) by (meson less_le_trans zero_less_numeral zero_less_power_int)
  then have aq: "\<bar>q\<bar> = q" by simp
  have Ege: "- 1074 \<le> E" unfolding E_def by (rule exponent_from_ge)
  have "q < 2 ^ 1024" using assms(2) by (rule less_trans) simp
  then have fit: "q < 2 powi (E + 53)"
    unfolding E_def by (rule exponent_from_fits)
  have low: "2 powi (E + 52) \<le> q"
  proof (cases "E = - 1074")
    case True
    with assms(1) show ?thesis by simp
  next
    case False
    with Ege have "- 1074 \<le> E - 1" "E - 1 < E" by simp_all
    from exponent_from_skipped [OF this(1), of q] this(2)
    have "2 powi (E - 1 + 53) \<le> q" unfolding E_def by blast
    moreover have "E - 1 + 53 = E + 52" by simp
    ultimately show ?thesis by simp
  qed
  define s where "s = q / 2 powi E"
  define m where "m = round_half_even s"
  define r :: rat where "r = of_int m * 2 powi E"
  have pE: "(0::rat) < 2 powi E" by simp
  have near: "\<bar>of_int m - s\<bar> \<le> 1 / 2"
    unfolding m_def by (rule round_half_even_near)
  have qs: "q = s * 2 powi E" unfolding s_def by simp
  have "\<bar>r - q\<bar> = \<bar>of_int m - s\<bar> * 2 powi E"
    unfolding r_def qs by (simp add: abs_mult left_diff_distrib [symmetric])
  also have "\<dots> \<le> 1 / 2 * 2 powi E"
    using near pE by (simp add: mult_right_mono)
  also have "\<dots> = 2 powi (E + 52) / 2 ^ 53"
    by (simp add: power_int_add)
  also have "\<dots> \<le> q / 2 ^ 53"
    using low by (simp add: divide_right_mono)
  finally have err: "\<bar>r - q\<bar> \<le> q / 2 ^ 53" .
  have "q / 2 ^ 53 \<le> q" using qpos by (simp add: field_simps)
  with err have "r \<le> 2 * q" by linarith
  also have "\<dots> < 2 * 2 ^ 1023" using assms(2) by simp
  also have "\<dots> = (2::rat) ^ 1024" by simp
  finally have small: "\<not> 2 ^ 1024 \<le> r" by simp
  have "dbl q = Num r"
    unfolding dbl_def Let_def aq E_def [symmetric] s_def [symmetric] m_def [symmetric]
      r_def [symmetric]
    using small qpos by simp
  with err show ?thesis by blast
qed

lemma round_half_even_nonneg: "0 \<le> s \<Longrightarrow> 0 \<le> round_half_even s"
  by (auto simp: round_half_even_def Let_def)

lemma exponent_from_le: "e \<le> 971 \<Longrightarrow> exponent_from a e \<le> 971"
proof (induction a e rule: exponent_from.induct)
  case (1 a e)
  show ?case
  proof (cases "971 \<le> e \<or> a < 2 powi (e + 53)")
    case True
    then have "exponent_from a e = e" by (subst exponent_from.simps) simp
    with 1(2) show ?thesis by simp
  next
    case False
    then have r: "exponent_from a e = exponent_from a (e + 1)"
      by (subst exponent_from.simps) simp
    from False have "e + 1 \<le> 971" by simp
    from 1(1) [OF False this] show ?thesis by (simp add: r)
  qed
qed

lemma dbl_numeral: "(numeral w :: int) < 2 ^ 53 \<Longrightarrow> dbl (numeral w) = Num (numeral w)"
  using dbl_nonneg_exact [of "numeral w" 0] by simp

lemma dbl_zero: "dbl 0 = Num 0"
  using dbl_nonneg_exact [of 0 0] by simp

lemma dbl_one: "dbl 1 = Num 1"
  using dbl_nonneg_exact [of 1 0] by simp

lemma dbl_half: "dbl (1 / 2) = Num (1 / 2)"
  using dbl_nonneg_exact [of 1 "- 1"] by simp

lemma dbl_quarter: "dbl (1 / 4) = Num (1 / 4)"
  using dbl_nonneg_exact [of 1 "- 2"] by simp

lemma dbl_tiny:
  assumes "0 \<le> q" and "q \<le> 1 / 2 ^ 100"
  shows "\<exists>r. dbl q = Num r \<and> 0 \<le> r \<and> r \<le> 1 / 2 ^ 90"
proof -
  define E where "E = exponent_from q (- 1074)"
  have aq: "\<bar>q\<bar> = q" using assms(1) by simp
  have Ege: "- 1074 \<le> E" unfolding E_def by (rule exponent_from_ge)
  define s where "s = q / 2 powi E"
  define m where "m = round_half_even s"
  define r :: rat where "r = of_int m * 2 powi E"
  have pE: "(0::rat) < 2 powi E" by simp
  have s0: "0 \<le> s" unfolding s_def using assms(1) by simp
  then have m0: "0 \<le> m" unfolding m_def by (rule round_half_even_nonneg)
  then have r0: "0 \<le> r" unfolding r_def by simp
  have near: "\<bar>of_int m - s\<bar> \<le> 1 / 2"
    unfolding m_def by (rule round_half_even_near)
  have qs: "q = s * 2 powi E" unfolding s_def by simp
  have "\<bar>r - q\<bar> = \<bar>of_int m - s\<bar> * 2 powi E"
    unfolding r_def qs by (simp add: abs_mult left_diff_distrib [symmetric])
  also have "\<dots> \<le> 1 / 2 * 2 powi E"
    using near pE by (simp add: mult_right_mono)
  finally have err: "\<bar>r - q\<bar> \<le> 2 powi E / 2" by simp
  have half: "2 powi E / 2 \<le> (1 / 2 ^ 100 :: rat)"
  proof (cases "E \<le> - 100")
    case True
    then have "(2::rat) powi E \<le> 2 powi (- 100)"
      by (intro power_int_increasing) simp_all
    also have "\<dots> = 1 / 2 ^ 100" by (simp add: power_int_minus_divide)
    finally show ?thesis by simp
  next
    case False
    then have "- 1074 \<le> E - 1" "E - 1 < E" by simp_all
    from exponent_from_skipped [OF this(1), of q] this(2)
    have "2 powi (E - 1 + 53) \<le> q" unfolding E_def by blast
    moreover have "(2::rat) powi E \<le> 2 powi (E - 1 + 53)"
      by (intro power_int_increasing) simp_all
    ultimately have "2 powi E \<le> q" by simp
    with assms(2) show ?thesis by simp
  qed
  have "r \<le> q + 2 powi E / 2" using err by linarith
  also have "\<dots> \<le> 1 / 2 ^ 100 + 1 / 2 ^ 100" using assms(2) half by linarith
  also have "\<dots> \<le> (1 / 2 ^ 90 :: rat)" by simp
  finally have rle: "r \<le> 1 / 2 ^ 90" .
  have "(1 / 2 ^ 90 :: rat) \<le> 1" by simp
  moreover have "(1::rat) < 2 ^ 1024" by simp
  ultimately have small: "\<not> 2 ^ 1024 \<le> r" using rle by linarith
  have "dbl q = Num r"
    unfolding dbl_def Let_def aq E_def [symmetric] s_def [symmetric] m_def [symmetric]
      r_def [symmetric]
    using small assms(1) by simp
  with r0 rle show ?thesis by blast
qed

lemma double_repr:
  assumes "is_double n" and "0 < n"
  shows "\<exists>m E. n = of_int m * 2 powi E \<and> 0 \<le> m \<and> m < 2 ^ 53 \<and> - 1074 \<le> E \<and> E \<le> 971"
proof -
  define E where "E = exponent_from n (- 1074)"
  define m where "m = round_half_even (n / 2 powi E)"
  define r :: rat where "r = of_int m * 2 powi E"
  have aq: "\<bar>n\<bar> = n" using assms(2) by simp
  have d: "dbl n = (if 2 ^ 1024 \<le> r then PosInfinity else Num r)"
    unfolding dbl_def Let_def aq E_def [symmetric] m_def [symmetric] r_def [symmetric]
    using assms(2) by simp
  from assms(1) have "dbl n = Num n" by (simp add: is_double_def)
  with d have small: "\<not> 2 ^ 1024 \<le> r" and rn: "r = n"
    by (auto split: if_splits)
  have Ege: "- 1074 \<le> E" unfolding E_def by (rule exponent_from_ge)
  have Ele: "E \<le> 971" unfolding E_def by (rule exponent_from_le) simp
  have "n < 2 ^ 1024" using small rn by simp
  then have "n < 2 powi (E + 53)" unfolding E_def by (rule exponent_from_fits)
  then have "of_int m * 2 powi E < 2 ^ 53 * (2 powi E :: rat)"
    using rn by (simp add: r_def power_int_add)
  then have "(of_int m :: rat) < 2 ^ 53" by simp
  then have m53: "m < 2 ^ 53" by (metis of_int_less_numeral_power_cancel_iff)
  have "0 \<le> n / 2 powi E" using assms(2) by simp
  then have m0: "0 \<le> m" unfolding m_def by (rule round_half_even_nonneg)
  from rn m0 m53 Ege Ele show ?thesis unfolding r_def by blast
qed

lemma dbl_normal:
  assumes "2 powi (e + 52) \<le> q" and "q < 2 powi (e + 53)" and "- 1074 \<le> e" and "e \<le> 970"
  shows "dbl q = Num (of_int (round_half_even (q / 2 powi e)) * 2 powi e)"
proof -
  define E where "E = exponent_from q (- 1074)"
  have qpos: "0 < q"
    using assms(1) by (meson less_le_trans zero_less_numeral zero_less_power_int)
  then have aq: "\<bar>q\<bar> = q" by simp
  have "e + 53 \<le> 1024" using assms(4) by simp
  then have "(2::rat) powi (e + 53) \<le> 2 powi 1024"
    by (intro power_int_increasing) simp_all
  with assms(2) have q1024: "q < 2 ^ 1024" by simp
  have Ele: "E \<le> e" unfolding E_def using assms(3,2) by (rule exponent_from_least)
  have "\<not> E < e"
  proof
    assume "E < e"
    then have "E + 53 \<le> e + 52" by simp
    then have "(2::rat) powi (E + 53) \<le> 2 powi (e + 52)"
      by (intro power_int_increasing) simp_all
    moreover have "q < 2 powi (E + 53)"
      unfolding E_def using q1024 by (rule exponent_from_fits)
    ultimately show False using assms(1) by simp
  qed
  with Ele have Ee: "E = e" by simp
  define s where "s = q / 2 powi e"
  define m where "m = round_half_even s"
  have "\<bar>of_int m - s\<bar> \<le> 1 / 2" unfolding m_def by (rule round_half_even_near)
  moreover have "s < 2 ^ 53"
  proof -
    have "q < 2 ^ 53 * 2 powi e" using assms(2) by (simp add: power_int_add)
    moreover have "(0::rat) < 2 powi e" by simp
    ultimately show ?thesis unfolding s_def by (simp only: pos_divide_less_eq)
  qed
  ultimately have "(of_int m :: rat) < 2 ^ 53 + 1" by linarith
  also have "(2 ^ 53 + 1 :: rat) = of_int (2 ^ 53 + 1)" by simp
  finally have "m < 2 ^ 53 + 1" by (simp only: of_int_less_iff)
  then have "m \<le> 2 ^ 53" by simp
  then have "(of_int m :: rat) \<le> of_int (2 ^ 53)" by (simp only: of_int_le_iff)
  then have "(of_int m :: rat) \<le> 2 ^ 53" by simp
  then have "of_int m * 2 powi e \<le> 2 ^ 53 * (2 powi e :: rat)"
    by (simp add: mult_right_mono)
  also have "\<dots> = 2 powi (e + 53)" by (simp add: power_int_add)
  also have "\<dots> \<le> 2 powi 1023"
    using assms(4) by (intro power_int_increasing) simp_all
  also have "\<dots> < (2::rat) ^ 1024" by simp
  finally have small: "\<not> 2 ^ 1024 \<le> of_int m * (2 powi e :: rat)" by simp
  show ?thesis
    unfolding dbl_def Let_def aq E_def [symmetric] Ee s_def [symmetric] m_def [symmetric]
    using small qpos by simp
qed

section \<open>Printed numbers\<close>

lemma decimal_small: "n < 10 \<Longrightarrow> decimal n = [digit_char n]"
  by (simp add: decimal.simps)

lemma decimal_large: "10 \<le> n \<Longrightarrow> decimal n = decimal (n div 10) @ [digit_char (n mod 10)]"
  by (subst decimal.simps) simp

lemma floor_rat_quotient:
  "\<lfloor>(numeral a :: rat) / numeral b\<rfloor> = numeral a div numeral b"
  using floor_divide_of_int_eq [of "numeral a" "numeral b", where ?'a = rat] by simp

lemmas eval_text = decimal_small decimal_large floor_rat_quotient digit_char_def fixed2_def
  hundredths_def Let_def ratio100_def gib_def

lemma below_ten:
  assumes "d < 10"
  shows "d = 0 \<or> d = 1 \<or> d = 2 \<or> d = 3 \<or> d = 4 \<or> d = 5 \<or> d = 6 \<or> d = 7 \<or> d = 8 \<or> d = (9::nat)"
  using assms by arith

lemma is_digit_digit_char: "d < 10 \<Longrightarrow> is_digit (digit_char d)"
  using below_ten [of d] by (auto simp: is_digit_def digit_char_def)

lemma digit_value_digit_char: "d < 10 \<Longrightarrow> digit_value (digit_char d) = d"
  using below_ten [of d] by (auto simp: digit_value_def digit_char_def)

lemma decimal_digits: "list_all is_digit (decimal n)"
proof (induction n rule: decimal.induct)
  case (1 n)
  show ?case
  proof (cases "n < 10")
    case True
    then show ?thesis by (simp add: decimal_small is_digit_digit_char)
  next
    case False
    with 1 show ?thesis by (simp add: decimal_large is_digit_digit_char)
  qed
qed

lemma decimal_not_Nil: "decimal n \<noteq> []"
  by (subst decimal.simps) simp

lemma read_nat_snoc: "read_nat (s @ [c]) = 10 * read_nat s + digit_value c"
  by (simp add: read_nat_def)

lemma read_nat_decimal: "read_nat (decimal n) = n"
proof (induction n rule: decimal.induct)
  case (1 n)
  show ?case
  proof (cases "n < 10")
    case True
    then show ?thesis by (simp add: decimal_small read_nat_def digit_value_digit_char)
  next
    case False
    with 1 show ?thesis by (simp add: decimal_large read_nat_snoc digit_value_digit_char)
  qed
qed

lemma two_decimals_fixed2: "two_decimals (fixed2 q)"
  by (simp add: two_decimals_def fixed2_def Let_def is_digit_digit_char decimal_digits
      decimal_not_Nil)

lemma filter_digits_fixed2:
  "filter is_digit (fixed2 q) =
     decimal (hundredths q div 100)
       @ [digit_char (hundredths q mod 100 div 10), digit_char (hundredths q mod 10)]"
proof -
  have "filter is_digit (decimal n) = decimal n" for n
    using decimal_digits [of n] by (simp add: list_all_iff filter_id_conv)
  moreover have "\<not> is_digit CHR ''.''" by (simp add: is_digit_def)
  ultimately show ?thesis
    by (simp add: fixed2_def Let_def is_digit_digit_char)
qed

lemma read_nat_three:
  "read_nat (decimal a @ [digit_char b, digit_char c]) =
     10 * (10 * a + digit_value (digit_char b)) + digit_value (digit_char c)"
  using read_nat_decimal [of a] by (simp add: read_nat_def)

lemma split_hundredths:
  fixes n :: nat
  shows "10 * (10 * (n div 100) + n mod 100 div 10) + n mod 10 = n"
proof -
  define a where "a = n div 100"
  define m where "m = n mod 100"
  define b where "b = m div 10"
  define c where "c = n mod 10"
  have "m mod 10 = c"
    unfolding m_def c_def by (rule mod_mod_cancel) simp
  then have "10 * b + c = m"
    unfolding b_def using mult_div_mod_eq [of 10 m] by simp
  moreover have "100 * a + m = n"
    unfolding a_def m_def by (rule mult_div_mod_eq)
  ultimately have "10 * (10 * a + b) + c = n"
    by (simp add: algebra_simps)
  then show ?thesis
    unfolding a_def b_def c_def m_def .
qed

lemma read_back_fixed2: "read_nat (filter is_digit (fixed2 q)) = hundredths q"
proof -
  let ?n = "hundredths q"
  have b: "?n mod 100 div 10 < 10" by (simp add: less_mult_imp_div_less)
  have c: "?n mod 10 < 10" by simp
  show ?thesis
    unfolding filter_digits_fixed2 read_nat_three
      digit_value_digit_char [OF b] digit_value_digit_char [OF c]
    by (rule split_hundredths)
qed

lemma hundredths_nearest:
  assumes "0 \<le> q"
  shows "\<bar>of_nat (hundredths q) - q * 100\<bar> \<le> 1 / 2"
proof -
  let ?r = "q * 100 + 1 / 2"
  have nonneg: "0 \<le> \<lfloor>?r\<rfloor>" using assms by simp
  have eq: "(of_nat (hundredths q) :: rat) = of_int \<lfloor>?r\<rfloor>"
    using nonneg by (simp add: hundredths_def)
  have "of_int \<lfloor>?r\<rfloor> \<le> ?r" "?r < of_int \<lfloor>?r\<rfloor> + 1"
    by linarith+
  then show ?thesis unfolding eq by linarith
qed


lemma fixed2_cong: "hundredths q = hundredths q' \<Longrightarrow> fixed2 q = fixed2 q'"
  by (simp add: fixed2_def)

lemma hundredths_small:
  assumes "0 \<le> q" and "q < 1 / 200"
  shows "hundredths q = 0"
proof -
  have "0 \<le> q * 100 + 1 / 2" "q * 100 + 1 / 2 < 1" using assms by simp_all
  then have "\<lfloor>q * 100 + 1 / 2\<rfloor> = 0" by linarith
  then show ?thesis by (simp add: hundredths_def)
qed

lemma div1024_exact:
  assumes "0 \<le> m" and "m < 2 ^ 53" and "- 1064 \<le> E" and "E \<le> 971"
  shows "js_div (Num (of_int m * 2 powi E)) (Num 1024) = Num (of_int m * 2 powi (E - 10))"
proof -
  have "(2::rat) powi (E - 10) = 2 powi E / 2 powi 10"
    by (rule power_int_diff) simp
  also have "\<dots> = 2 powi E / 1024"
    by simp
  finally have e: "of_int m * 2 powi E / 1024 = (of_int m * 2 powi (E - 10) :: rat)" by simp
  have "dbl (of_int m * 2 powi (E - 10)) = Num (of_int m * 2 powi (E - 10))"
    using assms by (intro dbl_nonneg_exact) simp_all
  then show ?thesis by (simp add: e)
qed

lemma gib_exact:
  assumes "0 \<le> m" and "m < 2 ^ 53" and "- 1044 \<le> E" and "E \<le> 971"
  shows "gib (Num (of_int m * 2 powi E)) = Num (of_int m * 2 powi E / 2 ^ 30)"
proof -
  have a: "js_div (Num (of_int m * 2 powi E)) (Num 1024) = Num (of_int m * 2 powi (E - 10))"
    using assms by (intro div1024_exact) simp_all
  have b: "js_div (Num (of_int m * 2 powi (E - 10))) (Num 1024)
      = Num (of_int m * 2 powi (E - 10 - 10))"
    using assms by (intro div1024_exact) simp_all
  have c: "js_div (Num (of_int m * 2 powi (E - 10 - 10))) (Num 1024)
      = Num (of_int m * 2 powi (E - 10 - 10 - 10))"
    using assms by (intro div1024_exact) simp_all
  have "E - 10 - 10 - 10 = E - 30" by simp
  then have "(2::rat) powi (E - 10 - 10 - 10) = 2 powi (E - 30)" by simp
  also have "\<dots> = 2 powi E / 2 powi 30"
    by (rule power_int_diff) simp
  also have "\<dots> = 2 powi E / 2 ^ 30"
    by simp
  finally have d: "(2::rat) powi (E - 10 - 10 - 10) = 2 powi E / 2 ^ 30" .
  show ?thesis
    unfolding gib_def a b c d by simp
qed

lemma div1024_tiny:
  assumes "0 \<le> q" and "q \<le> 1 / 2 ^ 90"
  shows "\<exists>r. js_div (Num q) (Num 1024) = Num r \<and> 0 \<le> r \<and> r \<le> 1 / 2 ^ 90"
proof -
  have "q / 1024 \<le> 1 / 2 ^ 90 / 1024" using assms(2) by (simp add: divide_right_mono)
  also have "\<dots> = (1 / 2 ^ 100 :: rat)" by simp
  finally have "q / 1024 \<le> 1 / 2 ^ 100" .
  moreover have "0 \<le> q / 1024" using assms(1) by simp
  ultimately show ?thesis using dbl_tiny [of "q / 1024"] by simp
qed

lemma gib_tiny:
  assumes "0 \<le> q" and "q \<le> 1 / 2 ^ 90"
  shows "\<exists>r. gib (Num q) = Num r \<and> 0 \<le> r \<and> r \<le> 1 / 2 ^ 90"
proof -
  obtain r1 where r1: "js_div (Num q) (Num 1024) = Num r1" "0 \<le> r1" "r1 \<le> 1 / 2 ^ 90"
    using div1024_tiny [OF assms] by blast
  obtain r2 where r2: "js_div (Num r1) (Num 1024) = Num r2" "0 \<le> r2" "r2 \<le> 1 / 2 ^ 90"
    using div1024_tiny [OF r1(2,3)] by blast
  obtain r3 where r3: "js_div (Num r2) (Num 1024) = Num r3" "0 \<le> r3" "r3 \<le> 1 / 2 ^ 90"
    using div1024_tiny [OF r2(2,3)] by blast
  show ?thesis
    unfolding gib_def r1(1) r2(1) using r3 by blast
qed

lemma toFixed2_small: "0 \<le> q \<Longrightarrow> q < 10 ^ 21 \<Longrightarrow> toFixed2 x (Num q) = fixed2 q"
  by simp

lemma gb_text_eq:
  assumes "is_double n" and "0 \<le> n" and "n < 10 ^ 21 * 2 ^ 30"
  shows "gb_text x (Num n) = fixed2 (n / 2 ^ 30) @ '' GB''"
proof (cases "n = 0")
  case True
  have "gib (Num 0) = Num 0" by (simp add: gib_def dbl_zero)
  then show ?thesis using True by (simp add: gb_text_def)
next
  case False
  with assms(2) have pos: "0 < n" by simp
  obtain m E where rep: "n = of_int m * 2 powi E" "0 \<le> m" "m < 2 ^ 53"
      "- 1074 \<le> E" "E \<le> 971"
    using double_repr [OF assms(1) pos] by blast
  have q0: "0 \<le> n / 2 ^ 30" using assms(2) by simp
  have q1: "n / 2 ^ 30 < 10 ^ 21" using assms(3) by (simp add: field_simps)
  show ?thesis
  proof (cases "- 1044 \<le> E")
    case True
    have "gib (Num n) = Num (n / 2 ^ 30)"
      unfolding rep(1) using rep(2,3) True rep(5) by (rule gib_exact)
    then show ?thesis
      using q0 q1 by (simp add: gb_text_def)
  next
    case False
    then have "E + 53 \<le> - 992" by simp
    then have "(2::rat) powi (E + 53) \<le> 2 powi (- 992)"
      by (intro power_int_increasing) simp_all
    also have "\<dots> = 1 / 2 ^ 992" by (simp add: power_int_minus_divide)
    also have "\<dots> \<le> (1 / 2 ^ 90 :: rat)" by simp
    finally have p: "(2::rat) powi (E + 53) \<le> 1 / 2 ^ 90" .
    have "(of_int m :: rat) < 2 ^ 53" using rep(3) by (metis of_int_less_numeral_power_cancel_iff)
    then have "n < 2 ^ 53 * 2 powi E"
      unfolding rep(1) by (simp add: mult_strict_right_mono)
    also have "\<dots> = 2 powi (E + 53)" by (simp add: power_int_add)
    finally have tiny: "n \<le> 1 / 2 ^ 90" using p by linarith
    obtain r where r: "gib (Num n) = Num r" "0 \<le> r" "r \<le> 1 / 2 ^ 90"
      using gib_tiny [OF assms(2) tiny] by blast
    have b: "(1 / 2 ^ 90 :: rat) < 1 / 200" by simp
    have hr: "hundredths r = 0"
      using r(2) r(3) b by (intro hundredths_small) simp_all
    have "n / 2 ^ 30 \<le> n" using assms(2) by (simp add: field_simps)
    then have hn: "hundredths (n / 2 ^ 30) = 0"
      using q0 tiny b by (intro hundredths_small) simp_all
    have "r < 10 ^ 21" using r(3) b by simp
    then have "toFixed2 x (Num r) = fixed2 r" using r(2) by simp
    also have "\<dots> = fixed2 (n / 2 ^ 30)"
      using hr hn by (intro fixed2_cong) simp
    finally show ?thesis by (simp add: gb_text_def r(1))
  qed
qed


lemma is_double_numeral: "(numeral w :: int) < 2 ^ 53 \<Longrightarrow> is_double (numeral w)"
  by (simp add: is_double_def dbl_numeral)

text \<open>Every whole number of bytes below \<open>2^53\<close> is a double.\<close>

lemma is_double_of_nat:
  assumes "k < 2 ^ 53"
  shows "is_double (of_nat k)"
proof -
  have "int k < 2 ^ 53" using assms by (metis of_nat_less_numeral_power_cancel_iff)
  then have "dbl (of_int (int k) * 2 powi 0) = Num (of_int (int k) * 2 powi 0)"
    by (intro dbl_nonneg_exact) simp_all
  then show ?thesis by (simp add: is_double_def)
qed

lemma ratio100_error:
  assumes "0 < t" and "1 / 2 ^ 1000 \<le> u / t" and "u / t \<le> 10 ^ 18"
  shows "\<exists>v. ratio100 (Num u) (Num t) = Num v \<and> 0 \<le> v \<and> v < 10 ^ 21
    \<and> \<bar>v - u / t * 100\<bar> \<le> u / t * 100 / 2 ^ 51"
proof -
  define q where "q = u / t"
  have qlow: "1 / 2 ^ 1000 \<le> q" and qhigh: "q \<le> 10 ^ 18"
    using assms(2,3) by (simp_all add: q_def)
  have qpos: "0 < q" using qlow by (rule less_le_trans [rotated]) simp
  have "(2::rat) powi (- 1022) = 1 / 2 ^ 1022" by (simp add: power_int_minus_divide)
  also have "\<dots> \<le> 1 / 2 ^ 1000" by simp
  finally have n1: "2 powi (- 1022) \<le> q" using qlow by simp
  have big: "(10::rat) ^ 21 < 2 ^ 1023" by simp
  have n2: "q < 2 ^ 1023" using qhigh big by simp
  obtain d where d: "dbl q = Num d" "\<bar>d - q\<bar> \<le> q / 2 ^ 53"
    using dbl_relative_error [OF n1 n2] by blast
  have "q / 2 ^ 53 \<le> q / 2" using qpos by (simp add: field_simps)
  with d(2) have dlow: "q / 2 \<le> d" and dhigh: "d \<le> 2 * q" using qpos by linarith+
  have "(2::rat) powi (- 1022) = 1 / 2 ^ 1022" by (simp add: power_int_minus_divide)
  also have "\<dots> \<le> 1 / 2 ^ 1000 / 2 * 100" by simp
  also have "\<dots> \<le> d * 100" using qlow dlow by simp
  finally have m1: "2 powi (- 1022) \<le> d * 100" .
  have "d * 100 \<le> 2 * 10 ^ 18 * 100" using dhigh qhigh by simp
  also have "\<dots> < (10::rat) ^ 21" by simp
  finally have dsmall: "d * 100 < 10 ^ 21" .
  then have m2: "d * 100 < 2 ^ 1023" using big by simp
  obtain v where v: "dbl (d * 100) = Num v" "\<bar>v - d * 100\<bar> \<le> d * 100 / 2 ^ 53"
    using dbl_relative_error [OF m1 m2] by blast
  have dpos: "0 < d" using dlow qpos by simp
  have e1: "d * 100 / 2 ^ 53 \<le> 2 * q * 100 / 2 ^ 53"
    using dhigh by (simp add: divide_right_mono)
  have "d * 100 - q * 100 = (d - q) * 100" by (simp add: algebra_simps)
  then have "\<bar>d * 100 - q * 100\<bar> = \<bar>(d - q) * 100\<bar>" by (rule arg_cong)
  also have "\<dots> = \<bar>d - q\<bar> * \<bar>100\<bar>" by (rule abs_mult)
  finally have "\<bar>d * 100 - q * 100\<bar> = \<bar>d - q\<bar> * 100" by simp
  then have e2: "\<bar>d * 100 - q * 100\<bar> \<le> q / 2 ^ 53 * 100"
    using d(2) by simp
  have "\<bar>v - q * 100\<bar> \<le> \<bar>v - d * 100\<bar> + \<bar>d * 100 - q * 100\<bar>" by linarith
  also have "\<dots> \<le> 2 * q * 100 / 2 ^ 53 + q / 2 ^ 53 * 100"
    using v(2) e1 e2 by linarith
  also have "\<dots> = q * 100 * 3 / 2 ^ 53" by simp
  also have "\<dots> \<le> q * 100 * 4 / 2 ^ 53"
    using qpos by (simp add: divide_right_mono)
  also have "\<dots> = q * 100 / 2 ^ 51" by simp
  finally have err: "\<bar>v - q * 100\<bar> \<le> q * 100 / 2 ^ 51" .
  have "d * 100 / 2 ^ 53 \<le> d * 100 / 2" using dpos by (simp add: field_simps)
  with v(2) have v0: "0 \<le> v" and vh: "v \<le> 2 * (d * 100)" using dpos by linarith+
  have "v \<le> 2 * (2 * 10 ^ 18 * 100)" using vh dhigh qhigh by simp
  also have "\<dots> < (10::rat) ^ 21" by simp
  finally have vsmall: "v < 10 ^ 21" .
  have "t \<noteq> 0" using assms(1) by simp
  then have "ratio100 (Num u) (Num t) = Num v"
    by (simp add: ratio100_def q_def [symmetric] d(1) v(1))
  with v0 vsmall err show ?thesis unfolding q_def by blast
qed

section \<open>The formatters\<close>

text \<open>
  Claim C5, as the panel has it. The panel formats the byte counts of the memory rows, of
  the memory modules and of the disks itself: for every byte count \<open>n\<close> that is a double
  with \<open>0 \<le> n < 10^21 * 2^30\<close> it prints \<open>n / 1024 / 1024 / 1024\<close> with \<open>toFixed(2)\<close> and
  then the fixed text \<open>GB\<close>, whatever the magnitude of \<open>n\<close>. The three divisions
  lose nothing that shows in the text. The number has the shape \<open>digits . digit digit\<close>,
  exactly two decimals, and its digits write the integer nearest to \<open>100 * n / 2^30\<close>. No
  unit is chosen, small counts are not printed in bytes, and the number is not bounded by
  1024. (The sizes of the file systems are printed by the package \<open>pretty-bytes\<close>, which
  is a parameter here.)
\<close>

theorem gb_text_two_decimals_fixed_unit:
  assumes "is_double n" and "0 \<le> n" and "n < 10 ^ 21 * 2 ^ 30"
  shows "gb_text x (Num n) = fixed2 (n / 2 ^ 30) @ '' GB''
    \<and> two_decimals (fixed2 (n / 2 ^ 30))
    \<and> read_nat (filter is_digit (fixed2 (n / 2 ^ 30))) = hundredths (n / 2 ^ 30)
    \<and> \<bar>of_nat (hundredths (n / 2 ^ 30)) - n / 2 ^ 30 * 100\<bar> \<le> 1 / 2"
proof -
  have nonneg: "0 \<le> n / 2 ^ 30" using assms(2) by simp
  show ?thesis
    using gb_text_eq [OF assms, of x] two_decimals_fixed2 [of "n / 2 ^ 30"]
      read_back_fixed2 [of "n / 2 ^ 30"] hundredths_nearest [OF nonneg]
    by blast
qed

text \<open>The theorem at 8 GiB: the cell reads \<open>8.00 GB\<close>.\<close>

theorem gb_text_two_decimals_fixed_unit_witness:
  "is_double 8589934592 \<and> (0::rat) \<le> 8589934592 \<and> (8589934592::rat) < 10 ^ 21 * 2 ^ 30
    \<and> gb_text stub_ext (Num 8589934592) = ''8.00 GB''
    \<and> two_decimals ''8.00''
    \<and> read_nat ''800'' = 800"
proof -
  have h0: "is_double 8589934592" by (simp add: is_double_numeral)
  have h1: "(0::rat) \<le> 8589934592" by simp
  have h2: "(8589934592::rat) < 10 ^ 21 * 2 ^ 30" by simp
  have v: "fixed2 (8589934592 / 2 ^ 30) = ''8.00''"
    by (simp add: eval_text)
  have f: "filter is_digit ''8.00'' = ''800''"
    by (simp add: is_digit_def)
  have "hundredths (8589934592 / 2 ^ 30) = 800"
    by (simp add: eval_text)
  then show ?thesis
    using gb_text_two_decimals_fixed_unit [OF h0 h1 h2, of stub_ext] h0 h1 h2
    unfolding v f by simp
qed

text \<open>
  Against claim C5 as it is stated: 2 TiB is printed as \<open>2048.00 GB\<close>, a number that is
  not below 1024, and 512 bytes are printed as \<open>0.00 GB\<close>, not in bytes and not in a
  unit in which the value is at least 1.
\<close>

theorem gb_text_counterexample:
  "gb_text stub_ext (Num 2199023255552) = ''2048.00 GB''
    \<and> gb_text stub_ext (Num 512) = ''0.00 GB''"
proof -
  have "gb_text stub_ext (Num 2199023255552) = fixed2 (2199023255552 / 2 ^ 30) @ '' GB''"
    by (rule gb_text_eq) (simp_all add: is_double_numeral)
  moreover have "gb_text stub_ext (Num 512) = fixed2 (512 / 2 ^ 30) @ '' GB''"
    by (rule gb_text_eq) (simp_all add: is_double_numeral)
  ultimately show ?thesis by (simp add: eval_text)
qed

text \<open>
  Claim C2, as the panel has it. There is no guard for a denominator of zero: the template
  divides and prints the result with \<open>toFixed(2)\<close>. With a denominator of \<open>0\<close> nothing is
  raised, and the text is \<open>NaN\<close> when the numerator is \<open>0\<close> or \<open>NaN\<close>, \<open>Infinity\<close> when
  it is positive and \<open>-Infinity\<close> when it is negative; it is never \<open>N/A\<close>. So with
  \<open>swaptotal = 0\<close> the cell of the swap usage reads one of these three, followed by a
  percent sign.
\<close>

theorem percent_of_zero_denominator:
  "toFixed2 x (ratio100 a (Num 0)) =
     (case a of
        Num q \<Rightarrow> if q = 0 then ''NaN'' else if 0 < q then ''Infinity'' else ''-Infinity''
      | PosInfinity \<Rightarrow> ''Infinity''
      | NegInfinity \<Rightarrow> ''-Infinity''
      | NaN \<Rightarrow> ''NaN'')
   \<and> swap_usage_text x (m\<lparr>mem_swaptotal := Num 0\<rparr>) =
       toFixed2 x (ratio100 (mem_swapused m) (Num 0)) @ ''%''
   \<and> toFixed2 x (ratio100 a (Num 0)) \<noteq> ''N/A''"
  by (simp add: swap_usage_text_def ratio100_def split: jsnum.splits)

theorem percent_of_zero_denominator_witness:
  "toFixed2 stub_ext (ratio100 (Num 5) (Num 0)) = ''Infinity''
    \<and> swap_usage_text stub_ext (sample_mem\<lparr>mem_swaptotal := Num 0\<rparr>) = ''NaN%''"
  using percent_of_zero_denominator [of stub_ext "Num 5" sample_mem]
    percent_of_zero_denominator [of stub_ext "Num 0" sample_mem]
  by (simp add: sample_mem_def)

text \<open>
  Against claim C2 as it is stated: on a host without swap the cell reads \<open>NaN%\<close>, and
  with a positive numerator over zero it reads \<open>Infinity%\<close>.
\<close>

theorem swap_usage_counterexample:
  "swap_usage_text stub_ext sample_mem = ''NaN%''
    \<and> swap_usage_text stub_ext (sample_mem\<lparr>mem_swapused := Num 1\<rparr>) = ''Infinity%''"
  by (simp add: swap_usage_text_def sample_mem_def ratio100_def)

section \<open>The request\<close>

lemma settled_of_Ok [simp]: "settled_of pr = Ok \<longleftrightarrow> (\<exists>v. pr = Fulfilled v)"
  by (cases pr) simp_all

lemma settled_of_Failed [simp]: "settled_of pr = Failed e \<longleftrightarrow> pr = Rejected e"
  by (cases pr) simp_all

lemma settled_of_Never [simp]: "settled_of pr = Never \<longleftrightarrow> pr = Pending"
  by (cases pr) simp_all

lemma await_case:
  "await p pr k c =
     (case pr of Fulfilled v \<Rightarrow> k v (c @ [p]) | Rejected e \<Rightarrow> (Threw e, c @ [p])
      | Pending \<Rightarrow> (Suspended, c @ [p]))"
  by (cases pr) simp_all

lemma call_case: "call r k c = (case r of Inl e \<Rightarrow> (Threw e, c) | Inr v \<Rightarrow> k v c)"
  by (cases r) simp_all

lemmas run_async = getHtmlForWebview_def call_case await_case return_async_def probe_order_def

lemma returned_all_ok:
  "fst (getHtmlForWebview x h) = Returned html \<Longrightarrow> outcome h p = Ok"
  by (cases p) (auto simp: run_async split: sum.splits promise.splits)

lemma returned_called_all:
  "fst (getHtmlForWebview x h) = Returned html \<Longrightarrow> snd (getHtmlForWebview x h) = probe_order"
  by (auto simp: run_async split: sum.splits promise.splits)

lemma called_is_prefix:
  "snd (getHtmlForWebview x h) = take (length (snd (getHtmlForWebview x h))) probe_order"
  by (simp add: run_async split: sum.splits promise.splits)

lemma called_after_fulfilled:
  "q \<in> set (butlast (snd (getHtmlForWebview x h))) \<Longrightarrow> outcome h q = Ok"
  by (auto simp: run_async split: sum.splits promise.splits)

lemma fault_is_thrown:
  "outcome h p = Failed e \<Longrightarrow> \<forall>q\<in>set (before p). outcome h q = Ok \<Longrightarrow>
   uptime_text_returns x h \<Longrightarrow> getHtmlForWebview x h = (Threw e, before p @ [p])"
  by (cases p)
    (auto simp: run_async before_def uptime_text_returns_def split: sum.splits)

lemma update_keeps:
  "\<forall>html. fst (getHtmlForWebview x h) \<noteq> Returned html \<Longrightarrow> update x h shown = shown"
  by (cases "fst (getHtmlForWebview x h)") (simp_all add: update_def)

text \<open>
  Claim C1, as the panel has it. Nothing in \<open>_getHtmlForWebview\<close> or in \<open>_update\<close> catches
  a fault. If the promise of any probe is rejected, no document is produced and the webview
  keeps what it showed; and when the probes called before that one were all fulfilled
  and \<open>prettyMs\<close> returned, the request throws exactly that probe's fault, after calling
  the probes up to that one and none of the later ones.
\<close>

theorem probe_fault_rejects_request:
  assumes "outcome h p = Failed e"
  shows "(\<forall>html. fst (getHtmlForWebview x h) \<noteq> Returned html)
    \<and> update x h shown = shown
    \<and> ((\<forall>q\<in>set (before p). outcome h q = Ok) \<and> uptime_text_returns x h
        \<longrightarrow> getHtmlForWebview x h = (Threw e, before p @ [p]))"
proof -
  have none: "\<forall>html. fst (getHtmlForWebview x h) \<noteq> Returned html"
    using returned_all_ok [of x h _ p] assms by auto
  show ?thesis
    using none update_keeps [OF none] fault_is_thrown [OF assms] by blast
qed

text \<open>The theorem on the sample host when the locale probe is rejected.\<close>

theorem probe_fault_rejects_request_witness:
  "outcome (sample_host\<lparr>osLocale := Rejected (Fault ''no locale'')\<rparr>) OsLocale
      = Failed (Fault ''no locale'')
    \<and> outcome (sample_host\<lparr>osLocale := Rejected (Fault ''no locale'')\<rparr>) GetStaticData = Ok
    \<and> uptime_text_returns stub_ext (sample_host\<lparr>osLocale := Rejected (Fault ''no locale'')\<rparr>)
    \<and> getHtmlForWebview stub_ext (sample_host\<lparr>osLocale := Rejected (Fault ''no locale'')\<rparr>)
        = (Threw (Fault ''no locale''), [GetStaticData, OsLocale])
    \<and> update stub_ext (sample_host\<lparr>osLocale := Rejected (Fault ''no locale'')\<rparr>) None = None"
proof -
  let ?h = "sample_host\<lparr>osLocale := Rejected (Fault ''no locale'')\<rparr>"
  have h: "outcome ?h OsLocale = Failed (Fault ''no locale'')" by simp
  have b: "before OsLocale = [GetStaticData]" by (simp add: before_def probe_order_def)
  have o: "outcome ?h GetStaticData = Ok" by (simp add: sample_host_def)
  have u: "uptime_text_returns stub_ext ?h"
    by (simp add: uptime_text_returns_def sample_host_def uptime_text_def stub_ext_def)
  show ?thesis
    using probe_fault_rejects_request [OF h, of stub_ext None] h o u unfolding b by simp
qed

text \<open>
  Against claim C1 as it is stated: when only the memory probe is rejected, the request
  throws its fault, no snapshot is built, and the webview keeps what it showed before.
\<close>

theorem mem_fault_counterexample:
  "getHtmlForWebview stub_ext (sample_host\<lparr>si_mem := Rejected (Fault ''EACCES'')\<rparr>)
      = (Threw (Fault ''EACCES''),
         [GetStaticData, OsLocale, PublicIpV4, SiTime, SiCurrentLoad, SiCpuCurrentSpeed,
          SiCpuTemperature, SiProcesses, SiMem])
    \<and> update stub_ext (sample_host\<lparr>si_mem := Rejected (Fault ''EACCES'')\<rparr>)
        (Some ''shown before'')
      = Some ''shown before''"
  by (simp add: update_def getHtmlForWebview_def sample_host_def uptime_text_def stub_ext_def)

text \<open>
  Claim C3, as the panel has it. The external address is asked for third, and its promise
  is awaited like every other one: the panel sets no time limit of its own and has no
  value to fall back to. When the two probes before it are fulfilled and its promise is
  rejected, the request throws that fault; when its promise never settles, the request
  never resumes; either way the seven later probes are never called. Whenever the promise
  is not fulfilled, no document is produced and the webview keeps what it showed.
\<close>

theorem external_ip_awaited_in_sequence:
  assumes "si_getStaticData h = Fulfilled sd" and "osLocale h = Fulfilled loc"
  shows "(publicIp_v4 h = Rejected e
            \<longrightarrow> getHtmlForWebview x h = (Threw e, [GetStaticData, OsLocale, PublicIpV4]))
    \<and> (publicIp_v4 h = Pending
            \<longrightarrow> getHtmlForWebview x h = (Suspended, [GetStaticData, OsLocale, PublicIpV4]))
    \<and> (outcome h PublicIpV4 \<noteq> Ok
            \<longrightarrow> (\<forall>html. fst (getHtmlForWebview x h) \<noteq> Returned html)
              \<and> update x h shown = shown)"
proof -
  have a: "publicIp_v4 h = Rejected e
      \<longrightarrow> getHtmlForWebview x h = (Threw e, [GetStaticData, OsLocale, PublicIpV4])"
    using assms by (simp add: getHtmlForWebview_def)
  have b: "publicIp_v4 h = Pending
      \<longrightarrow> getHtmlForWebview x h = (Suspended, [GetStaticData, OsLocale, PublicIpV4])"
    using assms by (simp add: getHtmlForWebview_def)
  have c: "outcome h PublicIpV4 \<noteq> Ok
      \<longrightarrow> (\<forall>html. fst (getHtmlForWebview x h) \<noteq> Returned html) \<and> update x h shown = shown"
  proof
    assume n: "outcome h PublicIpV4 \<noteq> Ok"
    have none: "\<forall>html. fst (getHtmlForWebview x h) \<noteq> Returned html"
      using returned_all_ok [of x h _ PublicIpV4] n by blast
    then show "(\<forall>html. fst (getHtmlForWebview x h) \<noteq> Returned html) \<and> update x h shown = shown"
      using update_keeps [OF none] by blast
  qed
  from a b c show ?thesis by blast
qed

text \<open>The theorem on the sample host when the lookup of the address is rejected.\<close>

theorem external_ip_awaited_in_sequence_witness:
  "si_getStaticData (sample_host\<lparr>publicIp_v4 := Rejected (Fault ''ENOTFOUND'')\<rparr>)
      = Fulfilled sample_static
    \<and> osLocale (sample_host\<lparr>publicIp_v4 := Rejected (Fault ''ENOTFOUND'')\<rparr>)
      = Fulfilled (JStr ''en-US'')
    \<and> publicIp_v4 (sample_host\<lparr>publicIp_v4 := Rejected (Fault ''ENOTFOUND'')\<rparr>)
      = Rejected (Fault ''ENOTFOUND'')
    \<and> getHtmlForWebview stub_ext (sample_host\<lparr>publicIp_v4 := Rejected (Fault ''ENOTFOUND'')\<rparr>)
      = (Threw (Fault ''ENOTFOUND''), [GetStaticData, OsLocale, PublicIpV4])
    \<and> update stub_ext (sample_host\<lparr>publicIp_v4 := Rejected (Fault ''ENOTFOUND'')\<rparr>) None
      = None"
proof -
  let ?h = "sample_host\<lparr>publicIp_v4 := Rejected (Fault ''ENOTFOUND'')\<rparr>"
  have s: "si_getStaticData ?h = Fulfilled sample_static" by (simp add: sample_host_def)
  have l: "osLocale ?h = Fulfilled (JStr ''en-US'')" by (simp add: sample_host_def)
  have r: "publicIp_v4 ?h = Rejected (Fault ''ENOTFOUND'')" by simp
  have n: "outcome ?h PublicIpV4 \<noteq> Ok" by simp
  show ?thesis
    using external_ip_awaited_in_sequence [OF s l, of "Fault ''ENOTFOUND''" stub_ext None] s l r n
    by simp
qed

text \<open>
  Against claim C3 as it is stated: while the lookup of the address does not settle the
  whole request hangs, and when it is rejected the whole request fails; in neither case
  is any other field gathered after it or anything rendered.
\<close>

theorem external_ip_counterexample:
  "getHtmlForWebview stub_ext (sample_host\<lparr>publicIp_v4 := Pending\<rparr>)
      = (Suspended, [GetStaticData, OsLocale, PublicIpV4])
    \<and> update stub_ext (sample_host\<lparr>publicIp_v4 := Pending\<rparr>) None = None
    \<and> getHtmlForWebview stub_ext (sample_host\<lparr>publicIp_v4 := Rejected (Fault ''timeout'')\<rparr>)
      = (Threw (Fault ''timeout''), [GetStaticData, OsLocale, PublicIpV4])
    \<and> update stub_ext (sample_host\<lparr>publicIp_v4 := Rejected (Fault ''timeout'')\<rparr>) None = None"
  by (simp add: update_def getHtmlForWebview_def sample_host_def)

text \<open>
  Claim C4, as the panel has it. The probes are called one at a time, in one fixed order:
  the probes called are always a beginning of that order, the first one is always called,
  and every called probe but the last was fulfilled before the next was called, so a
  probe's call waits for the results of all the probes before it. The document is
  assembled only when all ten probes have been called and fulfilled: never early,
  never from a part of them.
\<close>

theorem probes_called_one_at_a_time:
  "snd (getHtmlForWebview x h) = take (length (snd (getHtmlForWebview x h))) probe_order
    \<and> snd (getHtmlForWebview x h) \<noteq> []
    \<and> (\<forall>q\<in>set (butlast (snd (getHtmlForWebview x h))). outcome h q = Ok)
    \<and> (\<forall>html. fst (getHtmlForWebview x h) = Returned html
          \<longrightarrow> snd (getHtmlForWebview x h) = probe_order \<and> (\<forall>p. outcome h p = Ok))"
proof -
  have ne: "snd (getHtmlForWebview x h) \<noteq> []"
    by (simp add: run_async split: sum.splits promise.splits)
  show ?thesis
    using called_is_prefix [of x h] ne called_after_fulfilled [of _ x h]
      returned_called_all [of x h] returned_all_ok [of x h]
    by blast
qed

text \<open>
  The theorem on the sample host: with the time probe rejected four probes are called,
  the first three of them fulfilled; with every probe fulfilled all ten are called.
\<close>

theorem probes_called_one_at_a_time_witness:
  "snd (getHtmlForWebview stub_ext (sample_host\<lparr>si_time := Rejected (Fault ''time'')\<rparr>))
      = [GetStaticData, OsLocale, PublicIpV4, SiTime]
    \<and> outcome (sample_host\<lparr>si_time := Rejected (Fault ''time'')\<rparr>) GetStaticData = Ok
    \<and> outcome (sample_host\<lparr>si_time := Rejected (Fault ''time'')\<rparr>) OsLocale = Ok
    \<and> outcome (sample_host\<lparr>si_time := Rejected (Fault ''time'')\<rparr>) PublicIpV4 = Ok
    \<and> snd (getHtmlForWebview stub_ext sample_host) = probe_order
    \<and> outcome sample_host SiFsSize = Ok"
proof -
  let ?h = "sample_host\<lparr>si_time := Rejected (Fault ''time'')\<rparr>"
  have c: "snd (getHtmlForWebview stub_ext ?h) = [GetStaticData, OsLocale, PublicIpV4, SiTime]"
    by (simp add: getHtmlForWebview_def sample_host_def)
  have r: "\<exists>html. fst (getHtmlForWebview stub_ext sample_host) = Returned html"
    by (simp add: run_async sample_host_def uptime_text_def stub_ext_def sample_fs_def
        fsSize_entry_def)
  have "\<forall>q\<in>set (butlast (snd (getHtmlForWebview stub_ext ?h))). outcome ?h q = Ok"
    using probes_called_one_at_a_time [of stub_ext ?h] by blast
  then have b: "outcome ?h GetStaticData = Ok \<and> outcome ?h OsLocale = Ok
      \<and> outcome ?h PublicIpV4 = Ok"
    unfolding c by simp
  obtain html where "fst (getHtmlForWebview stub_ext sample_host) = Returned html"
    using r by blast
  then have a: "snd (getHtmlForWebview stub_ext sample_host) = probe_order
      \<and> (\<forall>p. outcome sample_host p = Ok)"
    using probes_called_one_at_a_time [of stub_ext sample_host] by blast
  then have "outcome sample_host SiFsSize = Ok" by blast
  with a b c show ?thesis by blast
qed

text \<open>
  Against claim C4 as it is stated: while the first probe has not settled no other probe
  is called, though on the same host with that probe fulfilled all ten are.
\<close>

theorem sequential_launch_counterexample:
  "getHtmlForWebview stub_ext (sample_host\<lparr>si_getStaticData := Pending\<rparr>)
      = (Suspended, [GetStaticData])
    \<and> snd (getHtmlForWebview stub_ext sample_host)
      = [GetStaticData, OsLocale, PublicIpV4, SiTime, SiCurrentLoad, SiCpuCurrentSpeed,
         SiCpuTemperature, SiProcesses, SiMem, SiFsSize]"
  by (simp add: getHtmlForWebview_def sample_host_def uptime_text_def stub_ext_def
      sample_fs_def fsSize_entry_def return_async_def)


lemma all_fulfilled_returns:
  assumes "\<forall>p. outcome h p = Ok" and "uptime_text_returns x h"
    and "si_fsSize h = Fulfilled fss" and "map_throwing (fsSize_entry x) fss = Inr fs"
  shows "\<exists>i. getHtmlForWebview x h
            = (Returned (html_of x (head_html (host_webview h) (colorTheme h) (host_nonce h)) i),
               probe_order)
          \<and> fsSize i = fs
          \<and> si_mem h = Fulfilled (memoryUsage i)
          \<and> si_getStaticData h = Fulfilled (staticData i)"
  using assms(1) [rule_format, of GetStaticData] assms(1) [rule_format, of OsLocale]
    assms(1) [rule_format, of PublicIpV4] assms(1) [rule_format, of SiTime]
    assms(1) [rule_format, of SiCurrentLoad] assms(1) [rule_format, of SiCpuCurrentSpeed]
    assms(1) [rule_format, of SiCpuTemperature] assms(1) [rule_format, of SiProcesses]
    assms(1) [rule_format, of SiMem] assms(2-)
  by (auto simp: run_async uptime_text_returns_def split: sum.splits)

lemma request_returns:
  assumes "\<forall>p. outcome h p = Ok" and "uptime_text_returns x h"
    and "storage_texts_return x h"
  shows "\<exists>i. getHtmlForWebview x h
            = (Returned (html_of x (head_html (host_webview h) (colorTheme h) (host_nonce h)) i),
               probe_order)
          \<and> si_mem h = Fulfilled (memoryUsage i)
          \<and> si_getStaticData h = Fulfilled (staticData i)"
proof -
  obtain fss where f: "si_fsSize h = Fulfilled fss"
    using assms(1) [rule_format, of SiFsSize] by auto
  then obtain fs where "map_throwing (fsSize_entry x) fss = Inr fs"
    using assms(3) by (auto simp: storage_texts_return_def split: sum.splits)
  from all_fulfilled_returns [OF assms(1,2) f this] show ?thesis by blast
qed

section \<open>The memory rows\<close>

lemma html_of_memory:
  "html_of x head i =
     (''<!DOCTYPE html><html lang=en>'' @ head @ ''<body><nav>System Information</nav>''
        @ system_vital x i @ cpu_usage x i
        @ ''<div><h6>Memory Usage</h6><table><thead><tr><th>Type</th><th>Usage</th><th>Free</th><th>Used</th><th>Total</th></tr></thead><tbody>'')
       @ physical_row x (memoryUsage i)
       @ (swap_row x (memoryUsage i) @ ''</tbody></table></div>'' @ storage_usage x i
            @ cards_after_storage x i @ ''</body></html>'')"
  by (simp add: html_of_def cards_before_storage_def memory_usage_def card_html_def)

text \<open>
  Claim C6. The row of the physical memory prints \<open>used / total * 100\<close> with \<open>toFixed(2)\<close>
  and a percent sign, after the two bars and before the shares of active and cached
  memory and the three sizes. With 8 GiB used of 16 GiB that text is \<open>50.00%\<close>, whatever
  the other counts are, and with nothing used it is \<open>0.00%\<close>. In general the text
  is a number with exactly two decimals whose digits write the integer nearest to a
  hundred times the double \<open>v\<close> that the two operations give, and \<open>v\<close> differs from the
  exact \<open>used / total * 100\<close> by at most one part in \<open>2^51\<close>. When every probe is
  fulfilled, the document that the request returns holds this row in its card
  \<open>Memory Usage\<close>.
\<close>

theorem physical_usage_rendered:
  "physical_row x m =
      ''<tr><td>Physical</td><td><div>''
        @ progress_bar (number_toString x (ratio100 (mem_active m) (mem_total m)))
        @ progress_bar (number_toString x (ratio100 (mem_buffcache m) (mem_total m)))
        @ ''</div><div>'' @ toFixed2 x (ratio100 (mem_used m) (mem_total m))
        @ ''% (active: '' @ toFixed2 x (ratio100 (mem_active m) (mem_total m))
        @ ''%, buffcache: '' @ toFixed2 x (ratio100 (mem_buffcache m) (mem_total m))
        @ ''%)</div></td><td>'' @ gb_text x (mem_free m)
        @ ''</td><td>'' @ gb_text x (mem_used m)
        @ ''</td><td>'' @ gb_text x (mem_total m) @ ''</td></tr>''
    \<and> (mem_used m = Num 8589934592 \<and> mem_total m = Num 17179869184
          \<longrightarrow> toFixed2 x (ratio100 (mem_used m) (mem_total m)) @ ''%'' = ''50.00%'')
    \<and> (\<forall>t. mem_used m = Num 0 \<and> mem_total m = Num t \<and> t \<noteq> 0
          \<longrightarrow> toFixed2 x (ratio100 (mem_used m) (mem_total m)) @ ''%'' = ''0.00%'')
    \<and> (\<forall>u t. mem_used m = Num u \<and> mem_total m = Num t \<and> 0 < t
            \<and> 1 / 2 ^ 1000 \<le> u / t \<and> u / t \<le> 10 ^ 18
          \<longrightarrow> (\<exists>v. ratio100 (Num u) (Num t) = Num v
                \<and> \<bar>v - u / t * 100\<bar> \<le> u / t * 100 / 2 ^ 51
                \<and> toFixed2 x (ratio100 (mem_used m) (mem_total m)) = fixed2 v
                \<and> two_decimals (fixed2 v)
                \<and> read_nat (filter is_digit (fixed2 v)) = hundredths v
                \<and> \<bar>of_nat (hundredths v) - v * 100\<bar> \<le> 1 / 2))
    \<and> ((\<forall>p. outcome h p = Ok) \<and> uptime_text_returns x h \<and> storage_texts_return x h
          \<and> si_mem h = Fulfilled m
          \<longrightarrow> (\<exists>pre post.
                getHtmlForWebview x h =
                  (Returned
                     (pre @ ''<div><h6>Memory Usage</h6><table><thead><tr><th>Type</th><th>Usage</th><th>Free</th><th>Used</th><th>Total</th></tr></thead><tbody>''
                        @ physical_row x m @ post),
                   probe_order)))"
proof -
  have row: "physical_row x m =
      ''<tr><td>Physical</td><td><div>''
        @ progress_bar (number_toString x (ratio100 (mem_active m) (mem_total m)))
        @ progress_bar (number_toString x (ratio100 (mem_buffcache m) (mem_total m)))
        @ ''</div><div>'' @ toFixed2 x (ratio100 (mem_used m) (mem_total m))
        @ ''% (active: '' @ toFixed2 x (ratio100 (mem_active m) (mem_total m))
        @ ''%, buffcache: '' @ toFixed2 x (ratio100 (mem_buffcache m) (mem_total m))
        @ ''%)</div></td><td>'' @ gb_text x (mem_free m)
        @ ''</td><td>'' @ gb_text x (mem_used m)
        @ ''</td><td>'' @ gb_text x (mem_total m) @ ''</td></tr>''"
    by (simp add: physical_row_def physical_usage_text_def)
  have half: "mem_used m = Num 8589934592 \<and> mem_total m = Num 17179869184
          \<longrightarrow> toFixed2 x (ratio100 (mem_used m) (mem_total m)) @ ''%'' = ''50.00%''"
  proof
    assume a: "mem_used m = Num 8589934592 \<and> mem_total m = Num 17179869184"
    have "ratio100 (Num 8589934592) (Num 17179869184) = Num 50"
      by (simp add: ratio100_def dbl_half dbl_numeral)
    with a show "toFixed2 x (ratio100 (mem_used m) (mem_total m)) @ ''%'' = ''50.00%''"
      by (simp add: eval_text)
  qed
  have none: "\<forall>t. mem_used m = Num 0 \<and> mem_total m = Num t \<and> t \<noteq> 0
          \<longrightarrow> toFixed2 x (ratio100 (mem_used m) (mem_total m)) @ ''%'' = ''0.00%''"
  proof (intro allI impI)
    fix t
    assume a: "mem_used m = Num 0 \<and> mem_total m = Num t \<and> t \<noteq> 0"
    then have "ratio100 (mem_used m) (mem_total m) = Num 0"
      by (simp add: ratio100_def dbl_zero)
    then show "toFixed2 x (ratio100 (mem_used m) (mem_total m)) @ ''%'' = ''0.00%''"
      by (simp add: eval_text)
  qed
  have general: "\<forall>u t. mem_used m = Num u \<and> mem_total m = Num t \<and> 0 < t
            \<and> 1 / 2 ^ 1000 \<le> u / t \<and> u / t \<le> 10 ^ 18
          \<longrightarrow> (\<exists>v. ratio100 (Num u) (Num t) = Num v
                \<and> \<bar>v - u / t * 100\<bar> \<le> u / t * 100 / 2 ^ 51
                \<and> toFixed2 x (ratio100 (mem_used m) (mem_total m)) = fixed2 v
                \<and> two_decimals (fixed2 v)
                \<and> read_nat (filter is_digit (fixed2 v)) = hundredths v
                \<and> \<bar>of_nat (hundredths v) - v * 100\<bar> \<le> 1 / 2)"
  proof (intro allI impI)
    fix u t
    assume a: "mem_used m = Num u \<and> mem_total m = Num t \<and> 0 < t
            \<and> 1 / 2 ^ 1000 \<le> u / t \<and> u / t \<le> 10 ^ 18"
    then obtain v where v: "ratio100 (Num u) (Num t) = Num v" "0 \<le> v" "v < 10 ^ 21"
        "\<bar>v - u / t * 100\<bar> \<le> u / t * 100 / 2 ^ 51"
      using ratio100_error [of t u] by blast
    have "toFixed2 x (ratio100 (mem_used m) (mem_total m)) = fixed2 v"
      using a v(1,2,3) by simp
    then show "\<exists>v. ratio100 (Num u) (Num t) = Num v
                \<and> \<bar>v - u / t * 100\<bar> \<le> u / t * 100 / 2 ^ 51
                \<and> toFixed2 x (ratio100 (mem_used m) (mem_total m)) = fixed2 v
                \<and> two_decimals (fixed2 v)
                \<and> read_nat (filter is_digit (fixed2 v)) = hundredths v
                \<and> \<bar>of_nat (hundredths v) - v * 100\<bar> \<le> 1 / 2"
      using v(1,4) two_decimals_fixed2 [of v] read_back_fixed2 [of v]
        hundredths_nearest [OF v(2)]
      by blast
  qed
  have doc: "(\<forall>p. outcome h p = Ok) \<and> uptime_text_returns x h \<and> storage_texts_return x h
          \<and> si_mem h = Fulfilled m
          \<longrightarrow> (\<exists>pre post.
                getHtmlForWebview x h =
                  (Returned
                     (pre @ ''<div><h6>Memory Usage</h6><table><thead><tr><th>Type</th><th>Usage</th><th>Free</th><th>Used</th><th>Total</th></tr></thead><tbody>''
                        @ physical_row x m @ post),
                   probe_order))"
  proof
    assume a: "(\<forall>p. outcome h p = Ok) \<and> uptime_text_returns x h \<and> storage_texts_return x h
          \<and> si_mem h = Fulfilled m"
    then obtain i where i: "getHtmlForWebview x h
            = (Returned (html_of x (head_html (host_webview h) (colorTheme h) (host_nonce h)) i),
               probe_order)" "si_mem h = Fulfilled (memoryUsage i)"
      using request_returns [of h x] by blast
    from a i(2) have mi: "memoryUsage i = m" by simp
    show "\<exists>pre post.
                getHtmlForWebview x h =
                  (Returned
                     (pre @ ''<div><h6>Memory Usage</h6><table><thead><tr><th>Type</th><th>Usage</th><th>Free</th><th>Used</th><th>Total</th></tr></thead><tbody>''
                        @ physical_row x m @ post),
                   probe_order)"
      unfolding i(1) html_of_memory mi
      by (metis append.assoc)
  qed
  from row half none general doc show ?thesis by blast
qed

lemma sample_host_all_ok: "outcome sample_host p = Ok"
  by (cases p) (simp_all add: sample_host_def)

text \<open>
  The theorem on the sample host, where 8 GiB of 16 GiB are used and 2 GiB are free: the
  row reads \<open>50.00%\<close>, and the returned document holds it.
\<close>

theorem physical_usage_rendered_witness:
  "mem_used sample_mem = Num 8589934592 \<and> mem_total sample_mem = Num 17179869184
    \<and> mem_free sample_mem = Num 2147483648
    \<and> si_mem sample_host = Fulfilled sample_mem
    \<and> uptime_text_returns stub_ext sample_host \<and> storage_texts_return stub_ext sample_host
    \<and> physical_row stub_ext sample_mem =
        ''<tr><td>Physical</td><td><div>'' @ progress_bar ''25'' @ progress_bar ''25''
          @ ''</div><div>50.00% (active: 25.00%, buffcache: 25.00%)</div></td><td>2.00 GB</td><td>8.00 GB</td><td>16.00 GB</td></tr>''
    \<and> (\<exists>pre post.
          getHtmlForWebview stub_ext sample_host =
            (Returned
               (pre @ ''<div><h6>Memory Usage</h6><table><thead><tr><th>Type</th><th>Usage</th><th>Free</th><th>Used</th><th>Total</th></tr></thead><tbody>''
                  @ physical_row stub_ext sample_mem @ post),
             probe_order))"
proof -
  have u: "mem_used sample_mem = Num 8589934592" by (simp add: sample_mem_def)
  have t: "mem_total sample_mem = Num 17179869184" by (simp add: sample_mem_def)
  have f: "mem_free sample_mem = Num 2147483648" by (simp add: sample_mem_def)
  have a: "mem_active sample_mem = Num 4294967296" by (simp add: sample_mem_def)
  have b: "mem_buffcache sample_mem = Num 4294967296" by (simp add: sample_mem_def)
  have s: "si_mem sample_host = Fulfilled sample_mem" by (simp add: sample_host_def)
  have ok: "\<forall>p. outcome sample_host p = Ok" using sample_host_all_ok by blast
  have up: "uptime_text_returns stub_ext sample_host"
    by (simp add: uptime_text_returns_def sample_host_def uptime_text_def stub_ext_def)
  have st: "storage_texts_return stub_ext sample_host"
    by (simp add: storage_texts_return_def sample_host_def sample_fs_def fsSize_entry_def
        stub_ext_def)
  have quarter: "ratio100 (Num 4294967296) (Num 17179869184) = Num 25"
    by (simp add: ratio100_def dbl_quarter dbl_numeral)
  have g2: "gb_text stub_ext (Num 2147483648) = ''2.00 GB''"
    using gb_text_eq [of 2147483648 stub_ext] by (simp add: is_double_numeral eval_text)
  have g8: "gb_text stub_ext (Num 8589934592) = ''8.00 GB''"
    using gb_text_eq [of 8589934592 stub_ext] by (simp add: is_double_numeral eval_text)
  have g16: "gb_text stub_ext (Num 17179869184) = ''16.00 GB''"
    using gb_text_eq [of 17179869184 stub_ext] by (simp add: is_double_numeral eval_text)
  have q25: "toFixed2 stub_ext (Num 25) = ''25.00''" by (simp add: eval_text)
  have n25: "number_toString stub_ext (Num 25) = ''25''" by (simp add: eval_text)
  note inst = physical_usage_rendered [of stub_ext sample_mem sample_host]
  from inst u t have fifty:
    "toFixed2 stub_ext (ratio100 (mem_used sample_mem) (mem_total sample_mem)) @ ''%'' = ''50.00%''"
    by blast
  then have fifty': "toFixed2 stub_ext (ratio100 (Num 8589934592) (Num 17179869184)) = ''50.00''"
    unfolding u t by simp
  from inst have "physical_row stub_ext sample_mem =
      ''<tr><td>Physical</td><td><div>''
        @ progress_bar (number_toString stub_ext (ratio100 (mem_active sample_mem) (mem_total sample_mem)))
        @ progress_bar (number_toString stub_ext (ratio100 (mem_buffcache sample_mem) (mem_total sample_mem)))
        @ ''</div><div>'' @ toFixed2 stub_ext (ratio100 (mem_used sample_mem) (mem_total sample_mem))
        @ ''% (active: '' @ toFixed2 stub_ext (ratio100 (mem_active sample_mem) (mem_total sample_mem))
        @ ''%, buffcache: '' @ toFixed2 stub_ext (ratio100 (mem_buffcache sample_mem) (mem_total sample_mem))
        @ ''%)</div></td><td>'' @ gb_text stub_ext (mem_free sample_mem)
        @ ''</td><td>'' @ gb_text stub_ext (mem_used sample_mem)
        @ ''</td><td>'' @ gb_text stub_ext (mem_total sample_mem) @ ''</td></tr>''"
    by blast
  then have row: "physical_row stub_ext sample_mem =
        ''<tr><td>Physical</td><td><div>'' @ progress_bar ''25'' @ progress_bar ''25''
          @ ''</div><div>50.00% (active: 25.00%, buffcache: 25.00%)</div></td><td>2.00 GB</td><td>8.00 GB</td><td>16.00 GB</td></tr>''"
    unfolding u t f a b quarter fifty' g2 g8 g16 q25 n25 by simp
  from inst ok up st s have "\<exists>pre post.
          getHtmlForWebview stub_ext sample_host =
            (Returned
               (pre @ ''<div><h6>Memory Usage</h6><table><thead><tr><th>Type</th><th>Usage</th><th>Free</th><th>Used</th><th>Total</th></tr></thead><tbody>''
                  @ physical_row stub_ext sample_mem @ post),
             probe_order)"
    by blast
  with u t f s up st row show ?thesis by blast
qed

text \<open>
  The operations round before the number is printed: \<open>1200000 / 8000000000 * 100\<close> is
  the double just below \<open>0.015\<close>, and it is printed as \<open>0.01\<close>.
\<close>

lemma rounded_before_printing:
  "toFixed2 x (ratio100 (Num 1200000) (Num 8000000000)) = ''0.01''"
proof -
  have d1: "dbl (3 / 20000) = Num (5534023222112865 / 2 ^ 65)"
    using dbl_normal [of "- 65" "3 / 20000"]
    by (simp add: round_half_even_def Let_def floor_rat_quotient power_int_minus_divide)
  have d2: "dbl (5534023222112865 / 2 ^ 65 * 100) = Num (8646911284551352 / 2 ^ 59)"
    using dbl_normal [of "- 59" "5534023222112865 / 2 ^ 65 * 100"]
    by (simp add: round_half_even_def Let_def floor_rat_quotient power_int_minus_divide)
  have "ratio100 (Num 1200000) (Num 8000000000) = Num (8646911284551352 / 2 ^ 59)"
    using d1 d2 by (simp add: ratio100_def)
  then show ?thesis
    by (simp add: eval_text)
qed


section \<open>The lists\<close>

lemma length_map_from: "length (map_from k f as) = length as"
  by (induction as arbitrary: k) simp_all

lemma nth_map_from: "j < length as \<Longrightarrow> map_from k f as ! j = f (as ! j) (k + j)"
proof (induction as arbitrary: k j)
  case Nil
  then show ?case by simp
next
  case (Cons a as)
  show ?case
  proof (cases j)
    case 0
    then show ?thesis by simp
  next
    case (Suc j')
    with Cons.prems have "j' < length as" by simp
    from Cons.IH [OF this, of "Suc k"] Suc show ?thesis by simp
  qed
qed

lemma length_array_map: "length (array_map f as) = length as"
  by (simp add: array_map_def length_map_from)

lemma nth_array_map: "j < length as \<Longrightarrow> array_map f as ! j = f (as ! j) j"
  by (simp add: array_map_def nth_map_from)

lemma array_map_eq: "array_map f as = map (\<lambda>k. f (as ! k) k) [0..<length as]"
  by (rule nth_equalityI) (simp_all add: length_array_map nth_array_map)

lemma join_empty: "join [] ss = concat ss"
  by (induction "[] :: string" ss rule: join.induct) simp_all

lemma join_separated:
  "join sep ss = (case ss of [] \<Rightarrow> [] | r # rs \<Rightarrow> r @ concat (map (\<lambda>s. sep @ s) rs))"
  by (induction sep ss rule: join.induct) simp_all

lemma html_of_lists:
  "html_of x head i =
     (''<!DOCTYPE html><html lang=en>'' @ head @ ''<body><nav>System Information</nav>''
        @ cards_before_storage x i)
       @ storage_usage x i
       @ (''<hr>'' @ os_card x i @ system_card x i @ baseboard_card x i @ bios_card x i
            @ cpu_card x i)
       @ gpu_card x i @ display_card x i @ memLayout_card x i @ diskLayout_card x i
       @ (versions_card x i @ ''</body></html>'')"
  by (simp add: html_of_def cards_after_storage_def)

text \<open>
  Claim C7. Each element of a list is printed as one table row that holds the element's
  number and, in a table of its own, the element's properties; the text of that row is
  spelled out for each of the five kinds (a file system has a plain row). The body of
  each card is the rows of the elements at positions \<open>0, 1, \<dots>\<close> of the list, each made
  from the element at its position and numbered with it, in that order: for the graphics
  controllers one after the other, for the other four lists with a comma between
  neighbours, because the template interpolates the array itself. So there are as many
  sub-tables as elements, in the order of the list, none sorted, dropped or repeated; and
  the five cards are part of the document.
\<close>

theorem one_row_per_element_in_order:
  "gpu_row x gpu k =
      ''<tr><td>''
        @ decimal k
        @ ''</td><td><table><tbody><tr><td>Model</td><td>''
        @ interp x (gpu ''model'')
        @ ''</td></tr><tr><td>Vendor</td><td>''
        @ interp x (gpu ''vendor'')
        @ ''</td></tr><tr><td>Bus</td><td>''
        @ interp x (gpu ''bus'')
        @ ''</td></tr><tr><td>Vram</td><td>''
        @ interp x (gpu ''vram'')
        @ '' MB</td></tr><tr><td>VramDynamic</td><td>''
        @ interp x (gpu ''vramDynamic'')
        @ ''</td></tr></tbody></table></td></tr>''
    \<and> display_row x display k =
      ''<tr><td>''
        @ decimal (k + 1)
        @ ''</td><td><table><tbody><tr><td>Model</td><td>''
        @ interp x (display ''model'')
        @ ''</td></tr><tr><td>main</td><td>''
        @ interp x (display ''main'')
        @ ''</td></tr><tr><td>builtin</td><td>''
        @ interp x (display ''builtin'')
        @ ''</td></tr><tr><td>connection</td><td>''
        @ interp x (display ''connection'')
        @ ''</td></tr><tr><td>resolutionx</td><td>''
        @ interp x (display ''resolutionx'')
        @ ''</td></tr><tr><td>resolutiony</td><td>''
        @ interp x (display ''resolutiony'')
        @ ''</td></tr><tr><td>sizex</td><td>''
        @ interp x (display ''sizex'')
        @ ''</td></tr><tr><td>sizey</td><td>''
        @ interp x (display ''sizey'')
        @ ''</td></tr><tr><td>pixeldepth</td><td>''
        @ interp x (display ''pixeldepth'')
        @ ''</td></tr></tbody></table></td></tr>''
    \<and> mem_row x mem k =
      ''<tr><td>''
        @ decimal (k + 1)
        @ ''</td><td><table><tbody><tr><td>size</td><td>''
        @ gb_text x (layout_size mem)
        @ ''</td></tr><tr><td>bank</td><td>''
        @ interp x (layout_any mem ''bank'')
        @ ''</td></tr><tr><td>type</td><td>''
        @ interp x (layout_any mem ''type'')
        @ ''</td></tr><tr><td>clockSpeed</td><td>''
        @ interp x (layout_any mem ''clockSpeed'')
        @ ''</td></tr><tr><td>formFactor</td><td>''
        @ interp x (layout_any mem ''formFactor'')
        @ ''</td></tr><tr><td>manufacturer</td><td>''
        @ interp x (layout_any mem ''manufacturer'')
        @ ''</td></tr><tr><td>partNum</td><td>''
        @ interp x (layout_any mem ''partNum'')
        @ ''</td></tr><tr><td>serialNum</td><td>''
        @ interp x (layout_any mem ''serialNum'')
        @ ''</td></tr><tr><td>voltageConfigured</td><td>''
        @ interp x (layout_any mem ''voltageConfigured'')
        @ ''</td></tr><tr><td>voltageMin</td><td>''
        @ interp x (layout_any mem ''voltageMin'')
        @ ''</td></tr><tr><td>voltageMax</td><td>''
        @ interp x (layout_any mem ''voltageMax'')
        @ ''</td></tr></tbody></table></td></tr>''
    \<and> disk_row x disk k =
      ''<tr><td>''
        @ decimal (k + 1)
        @ ''</td><td><table><tbody><tr><td>type</td><td>''
        @ interp x (layout_any disk ''type'')
        @ ''</td></tr><tr><td>name</td><td>''
        @ interp x (layout_any disk ''name'')
        @ ''</td></tr><tr><td>vendor</td><td>''
        @ interp x (layout_any disk ''vendor'')
        @ ''</td></tr><tr><td>size</td><td>''
        @ gb_text x (layout_size disk)
        @ ''</td></tr><tr><td>bytesPerSector</td><td>''
        @ interp x (layout_any disk ''bytesPerSector'')
        @ ''</td></tr><tr><td>totalCylinders</td><td>''
        @ interp x (layout_any disk ''totalCylinders'')
        @ ''</td></tr><tr><td>totalHeads</td><td>''
        @ interp x (layout_any disk ''totalHeads'')
        @ ''</td></tr><tr><td>totalSectors</td><td>''
        @ interp x (layout_any disk ''totalSectors'')
        @ ''</td></tr><tr><td>totalTracks</td><td>''
        @ interp x (layout_any disk ''totalTracks'')
        @ ''</td></tr><tr><td>tracksPerCylinder</td><td>''
        @ interp x (layout_any disk ''tracksPerCylinder'')
        @ ''</td></tr><tr><td>sectorsPerTrack</td><td>''
        @ interp x (layout_any disk ''sectorsPerTrack'')
        @ ''</td></tr><tr><td>firmwareRevision</td><td>''
        @ interp x (layout_any disk ''firmwareRevision'')
        @ ''</td></tr><tr><td>serialNum</td><td>''
        @ interp x (layout_any disk ''serialNum'')
        @ ''</td></tr><tr><td>interfaceType</td><td>''
        @ interp x (layout_any disk ''interfaceType'')
        @ ''</td></tr><tr><td>smartStatus</td><td>''
        @ interp x (layout_any disk ''smartStatus'')
        @ ''</td></tr></tbody></table></td></tr>''
    \<and> storage_row x st k =
      ''<tr><td>'' @ interp x (fs_mount st) @ ''</td><td>'' @ interp x (fs_type st)
        @ ''</td><td>'' @ interp x (fs_fs st) @ ''</td><td><div>''
        @ progress_bar (number_toString x (ratio100 (fs_used st) (fs_size st)))
        @ ''</div><div>'' @ toFixed2 x (ratio100 (fs_used st) (fs_size st))
        @ ''%</div></td><td>'' @ prettyFree st @ ''</td><td>'' @ prettyUsed st
        @ ''</td><td>'' @ prettySize st @ ''</td></tr>''
    \<and> gpu_card x i =
        ''<div><h6>GPU</h6><table><tbody>''
          @ concat (map (\<lambda>k. gpu_row x (controllers (graphics (staticData i)) ! k) k)
              [0..<length (controllers (graphics (staticData i)))])
          @ ''</tbody></table></div>''
    \<and> display_card x i =
        ''<div><h6>Display</h6><table><tbody>''
          @ (case map (\<lambda>k. display_row x (displays (graphics (staticData i)) ! k) k) [0..<length (displays (graphics (staticData i)))] of
            [] \<Rightarrow> []
          | r # rs \<Rightarrow> r @ concat (map (\<lambda>s. '','' @ s) rs))
          @ ''</tbody></table></div>''
    \<and> memLayout_card x i =
        ''<div><h6>memLayout</h6><table><tbody>''
          @ (case map (\<lambda>k. mem_row x (memLayout (staticData i) ! k) k) [0..<length (memLayout (staticData i))] of
            [] \<Rightarrow> []
          | r # rs \<Rightarrow> r @ concat (map (\<lambda>s. '','' @ s) rs))
          @ ''</tbody></table></div>''
    \<and> diskLayout_card x i =
        ''<div><h6>diskLayout</h6><table><tbody>''
          @ (case map (\<lambda>k. disk_row x (diskLayout (staticData i) ! k) k) [0..<length (diskLayout (staticData i))] of
            [] \<Rightarrow> []
          | r # rs \<Rightarrow> r @ concat (map (\<lambda>s. '','' @ s) rs))
          @ ''</tbody></table></div>''
    \<and> storage_usage x i =
        ''<div><h6>Storage Usage</h6><table>'' @ storage_thead @ ''<tbody>''
          @ (case map (\<lambda>k. storage_row x (fsSize i ! k) k) [0..<length (fsSize i)] of
            [] \<Rightarrow> []
          | r # rs \<Rightarrow> r @ concat (map (\<lambda>s. '','' @ s) rs))
          @ ''</tbody></table></div>''
    \<and> (\<exists>pre mid post.
          html_of x head i =
            pre @ storage_usage x i @ mid @ gpu_card x i @ display_card x i
              @ memLayout_card x i @ diskLayout_card x i @ post)
    \<and> (length (gpu_rows x i) = length (controllers (graphics (staticData i)))
      \<and> (\<forall>k<length (controllers (graphics (staticData i))).
            gpu_rows x i ! k = gpu_row x (controllers (graphics (staticData i)) ! k) k))
    \<and> (length (display_rows x i) = length (displays (graphics (staticData i)))
      \<and> (\<forall>k<length (displays (graphics (staticData i))).
            display_rows x i ! k = display_row x (displays (graphics (staticData i)) ! k) k))
    \<and> (length (mem_rows x i) = length (memLayout (staticData i))
      \<and> (\<forall>k<length (memLayout (staticData i)).
            mem_rows x i ! k = mem_row x (memLayout (staticData i) ! k) k))
    \<and> (length (disk_rows x i) = length (diskLayout (staticData i))
      \<and> (\<forall>k<length (diskLayout (staticData i)).
            disk_rows x i ! k = disk_row x (diskLayout (staticData i) ! k) k))
    \<and> (length (storage_rows x i) = length (fsSize i)
      \<and> (\<forall>k<length (fsSize i). storage_rows x i ! k = storage_row x (fsSize i ! k) k))"
proof -
  have rows: "gpu_row x gpu k =
      ''<tr><td>''
        @ decimal k
        @ ''</td><td><table><tbody><tr><td>Model</td><td>''
        @ interp x (gpu ''model'')
        @ ''</td></tr><tr><td>Vendor</td><td>''
        @ interp x (gpu ''vendor'')
        @ ''</td></tr><tr><td>Bus</td><td>''
        @ interp x (gpu ''bus'')
        @ ''</td></tr><tr><td>Vram</td><td>''
        @ interp x (gpu ''vram'')
        @ '' MB</td></tr><tr><td>VramDynamic</td><td>''
        @ interp x (gpu ''vramDynamic'')
        @ ''</td></tr></tbody></table></td></tr>''"
    "display_row x display k =
      ''<tr><td>''
        @ decimal (k + 1)
        @ ''</td><td><table><tbody><tr><td>Model</td><td>''
        @ interp x (display ''model'')
        @ ''</td></tr><tr><td>main</td><td>''
        @ interp x (display ''main'')
        @ ''</td></tr><tr><td>builtin</td><td>''
        @ interp x (display ''builtin'')
        @ ''</td></tr><tr><td>connection</td><td>''
        @ interp x (display ''connection'')
        @ ''</td></tr><tr><td>resolutionx</td><td>''
        @ interp x (display ''resolutionx'')
        @ ''</td></tr><tr><td>resolutiony</td><td>''
        @ interp x (display ''resolutiony'')
        @ ''</td></tr><tr><td>sizex</td><td>''
        @ interp x (display ''sizex'')
        @ ''</td></tr><tr><td>sizey</td><td>''
        @ interp x (display ''sizey'')
        @ ''</td></tr><tr><td>pixeldepth</td><td>''
        @ interp x (display ''pixeldepth'')
        @ ''</td></tr></tbody></table></td></tr>''"
    "mem_row x mem k =
      ''<tr><td>''
        @ decimal (k + 1)
        @ ''</td><td><table><tbody><tr><td>size</td><td>''
        @ gb_text x (layout_size mem)
        @ ''</td></tr><tr><td>bank</td><td>''
        @ interp x (layout_any mem ''bank'')
        @ ''</td></tr><tr><td>type</td><td>''
        @ interp x (layout_any mem ''type'')
        @ ''</td></tr><tr><td>clockSpeed</td><td>''
        @ interp x (layout_any mem ''clockSpeed'')
        @ ''</td></tr><tr><td>formFactor</td><td>''
        @ interp x (layout_any mem ''formFactor'')
        @ ''</td></tr><tr><td>manufacturer</td><td>''
        @ interp x (layout_any mem ''manufacturer'')
        @ ''</td></tr><tr><td>partNum</td><td>''
        @ interp x (layout_any mem ''partNum'')
        @ ''</td></tr><tr><td>serialNum</td><td>''
        @ interp x (layout_any mem ''serialNum'')
        @ ''</td></tr><tr><td>voltageConfigured</td><td>''
        @ interp x (layout_any mem ''voltageConfigured'')
        @ ''</td></tr><tr><td>voltageMin</td><td>''
        @ interp x (layout_any mem ''voltageMin'')
        @ ''</td></tr><tr><td>voltageMax</td><td>''
        @ interp x (layout_any mem ''voltageMax'')
        @ ''</td></tr></tbody></table></td></tr>''"
    "disk_row x disk k =
      ''<tr><td>''
        @ decimal (k + 1)
        @ ''</td><td><table><tbody><tr><td>type</td><td>''
        @ interp x (layout_any disk ''type'')
        @ ''</td></tr><tr><td>name</td><td>''
        @ interp x (layout_any disk ''name'')
        @ ''</td></tr><tr><td>vendor</td><td>''
        @ interp x (layout_any disk ''vendor'')
        @ ''</td></tr><tr><td>size</td><td>''
        @ gb_text x (layout_size disk)
        @ ''</td></tr><tr><td>bytesPerSector</td><td>''
        @ interp x (layout_any disk ''bytesPerSector'')
        @ ''</td></tr><tr><td>totalCylinders</td><td>''
        @ interp x (layout_any disk ''totalCylinders'')
        @ ''</td></tr><tr><td>totalHeads</td><td>''
        @ interp x (layout_any disk ''totalHeads'')
        @ ''</td></tr><tr><td>totalSectors</td><td>''
        @ interp x (layout_any disk ''totalSectors'')
        @ ''</td></tr><tr><td>totalTracks</td><td>''
        @ interp x (layout_any disk ''totalTracks'')
        @ ''</td></tr><tr><td>tracksPerCylinder</td><td>''
        @ interp x (layout_any disk ''tracksPerCylinder'')
        @ ''</td></tr><tr><td>sectorsPerTrack</td><td>''
        @ interp x (layout_any disk ''sectorsPerTrack'')
        @ ''</td></tr><tr><td>firmwareRevision</td><td>''
        @ interp x (layout_any disk ''firmwareRevision'')
        @ ''</td></tr><tr><td>serialNum</td><td>''
        @ interp x (layout_any disk ''serialNum'')
        @ ''</td></tr><tr><td>interfaceType</td><td>''
        @ interp x (layout_any disk ''interfaceType'')
        @ ''</td></tr><tr><td>smartStatus</td><td>''
        @ interp x (layout_any disk ''smartStatus'')
        @ ''</td></tr></tbody></table></td></tr>''"
    "storage_row x st k =
      ''<tr><td>'' @ interp x (fs_mount st) @ ''</td><td>'' @ interp x (fs_type st)
        @ ''</td><td>'' @ interp x (fs_fs st) @ ''</td><td><div>''
        @ progress_bar (number_toString x (ratio100 (fs_used st) (fs_size st)))
        @ ''</div><div>'' @ toFixed2 x (ratio100 (fs_used st) (fs_size st))
        @ ''%</div></td><td>'' @ prettyFree st @ ''</td><td>'' @ prettyUsed st
        @ ''</td><td>'' @ prettySize st @ ''</td></tr>''"
    by (simp_all add: gpu_row_def display_row_def mem_row_def disk_row_def storage_row_def
        sub_table_def kv_row_def)
  have cards: "gpu_card x i =
        ''<div><h6>GPU</h6><table><tbody>''
          @ concat (map (\<lambda>k. gpu_row x (controllers (graphics (staticData i)) ! k) k)
              [0..<length (controllers (graphics (staticData i)))])
          @ ''</tbody></table></div>''"
    "display_card x i =
        ''<div><h6>Display</h6><table><tbody>''
          @ (case map (\<lambda>k. display_row x (displays (graphics (staticData i)) ! k) k) [0..<length (displays (graphics (staticData i)))] of
            [] \<Rightarrow> []
          | r # rs \<Rightarrow> r @ concat (map (\<lambda>s. '','' @ s) rs))
          @ ''</tbody></table></div>''"
    "memLayout_card x i =
        ''<div><h6>memLayout</h6><table><tbody>''
          @ (case map (\<lambda>k. mem_row x (memLayout (staticData i) ! k) k) [0..<length (memLayout (staticData i))] of
            [] \<Rightarrow> []
          | r # rs \<Rightarrow> r @ concat (map (\<lambda>s. '','' @ s) rs))
          @ ''</tbody></table></div>''"
    "diskLayout_card x i =
        ''<div><h6>diskLayout</h6><table><tbody>''
          @ (case map (\<lambda>k. disk_row x (diskLayout (staticData i) ! k) k) [0..<length (diskLayout (staticData i))] of
            [] \<Rightarrow> []
          | r # rs \<Rightarrow> r @ concat (map (\<lambda>s. '','' @ s) rs))
          @ ''</tbody></table></div>''"
    "storage_usage x i =
        ''<div><h6>Storage Usage</h6><table>'' @ storage_thead @ ''<tbody>''
          @ (case map (\<lambda>k. storage_row x (fsSize i ! k) k) [0..<length (fsSize i)] of
            [] \<Rightarrow> []
          | r # rs \<Rightarrow> r @ concat (map (\<lambda>s. '','' @ s) rs))
          @ ''</tbody></table></div>''"
    by (simp_all add: gpu_card_def display_card_def memLayout_card_def diskLayout_card_def
        storage_usage_def gpu_rows_def display_rows_def mem_rows_def disk_rows_def
        storage_rows_def card_html_def interp_array_def join_empty
        join_separated [of "'',''"] array_map_eq)
  have doc: "\<exists>pre mid post.
          html_of x head i =
            pre @ storage_usage x i @ mid @ gpu_card x i @ display_card x i
              @ memLayout_card x i @ diskLayout_card x i @ post"
    using html_of_lists [of x head i] by blast
  have nth: "length (gpu_rows x i) = length (controllers (graphics (staticData i)))
      \<and> (\<forall>k<length (controllers (graphics (staticData i))).
            gpu_rows x i ! k = gpu_row x (controllers (graphics (staticData i)) ! k) k)"
    "length (display_rows x i) = length (displays (graphics (staticData i)))
      \<and> (\<forall>k<length (displays (graphics (staticData i))).
            display_rows x i ! k = display_row x (displays (graphics (staticData i)) ! k) k)"
    "length (mem_rows x i) = length (memLayout (staticData i))
      \<and> (\<forall>k<length (memLayout (staticData i)).
            mem_rows x i ! k = mem_row x (memLayout (staticData i) ! k) k)"
    "length (disk_rows x i) = length (diskLayout (staticData i))
      \<and> (\<forall>k<length (diskLayout (staticData i)).
            disk_rows x i ! k = disk_row x (diskLayout (staticData i) ! k) k)"
    "length (storage_rows x i) = length (fsSize i)
      \<and> (\<forall>k<length (fsSize i). storage_rows x i ! k = storage_row x (fsSize i ! k) k)"
    by (simp_all add: gpu_rows_def display_rows_def mem_rows_def disk_rows_def
        storage_rows_def length_array_map nth_array_map)
  from rows cards doc nth show ?thesis by blast
qed


text \<open>
  The theorem on the sample host: the two graphics controllers give two sub-tables,
  numbered 0 and 1, one after the other, and the two file systems give two rows with a
  comma between them.
\<close>

theorem one_row_per_element_in_order_witness:
  "length (gpu_rows stub_ext sample_input) = 2
    \<and> length (storage_rows stub_ext sample_input) = 2
    \<and> gpu_card stub_ext sample_input =
        ''<div><h6>GPU</h6><table><tbody><tr><td>0</td><td><table><tbody><tr><td>Model</td><td>A</td></tr><tr><td>Vendor</td><td>undefined</td></tr><tr><td>Bus</td><td>undefined</td></tr><tr><td>Vram</td><td>undefined MB</td></tr><tr><td>VramDynamic</td><td>undefined</td></tr></tbody></table></td></tr><tr><td>1</td><td><table><tbody><tr><td>Model</td><td>B</td></tr><tr><td>Vendor</td><td>undefined</td></tr><tr><td>Bus</td><td>undefined</td></tr><tr><td>Vram</td><td>undefined MB</td></tr><tr><td>VramDynamic</td><td>undefined</td></tr></tbody></table></td></tr></tbody></table></div>''
    \<and> storage_usage stub_ext sample_input =
        ''<div><h6>Storage Usage</h6><table>'' @ storage_thead
          @ ''<tbody><tr><td>/</td><td>ext4</td><td>/dev/sda1</td><td><div>''
          @ progress_bar ''50''
          @ ''</div><div>50.00%</div></td><td>1 kB</td><td>1 kB</td><td>1 kB</td></tr>,<tr><td>/home</td><td>ext4</td><td>/dev/sdb1</td><td><div>''
          @ progress_bar ''25''
          @ ''</div><div>25.00%</div></td><td>1 kB</td><td>1 kB</td><td>1 kB</td></tr></tbody></table></div>''"
proof -
  have g: "controllers (graphics (staticData sample_input))
      = [obj [(''model'', JStr ''A'')], obj [(''model'', JStr ''B'')]]"
    by (simp add: sample_input_def sample_static_def)
  have f: "fsSize sample_input =
        [\<lparr>fs_fs = JStr ''/dev/sda1'', fs_type = JStr ''ext4'', fs_size = Num 2048,
          fs_used = Num 1024, fs_available = JNum (Num 1024), fs_use = JNum (Num 50),
          fs_mount = JStr ''/'', prettySize = ''1 kB'', prettyUsed = ''1 kB'',
          prettyFree = ''1 kB''\<rparr>,
         \<lparr>fs_fs = JStr ''/dev/sdb1'', fs_type = JStr ''ext4'', fs_size = Num 4096,
          fs_used = Num 1024, fs_available = JNum (Num 3072), fs_use = JNum (Num 25),
          fs_mount = JStr ''/home'', prettySize = ''1 kB'', prettyUsed = ''1 kB'',
          prettyFree = ''1 kB''\<rparr>]"
    by (simp add: sample_input_def)
  note inst = one_row_per_element_in_order [of stub_ext _ _ _ _ _ _ sample_input]
  from inst have lg: "length (gpu_rows stub_ext sample_input) = 2"
    unfolding g by simp
  from inst have ls: "length (storage_rows stub_ext sample_input) = 2"
    unfolding f by simp
  from inst have "gpu_card stub_ext sample_input =
        ''<div><h6>GPU</h6><table><tbody>''
          @ concat (map (\<lambda>k. gpu_row stub_ext (controllers (graphics (staticData sample_input)) ! k) k)
              [0..<length (controllers (graphics (staticData sample_input)))])
          @ ''</tbody></table></div>''"
    by blast
  then have gc: "gpu_card stub_ext sample_input =
        ''<div><h6>GPU</h6><table><tbody><tr><td>0</td><td><table><tbody><tr><td>Model</td><td>A</td></tr><tr><td>Vendor</td><td>undefined</td></tr><tr><td>Bus</td><td>undefined</td></tr><tr><td>Vram</td><td>undefined MB</td></tr><tr><td>VramDynamic</td><td>undefined</td></tr></tbody></table></td></tr><tr><td>1</td><td><table><tbody><tr><td>Model</td><td>B</td></tr><tr><td>Vendor</td><td>undefined</td></tr><tr><td>Bus</td><td>undefined</td></tr><tr><td>Vram</td><td>undefined MB</td></tr><tr><td>VramDynamic</td><td>undefined</td></tr></tbody></table></td></tr></tbody></table></div>''"
    unfolding g
    by (simp add: gpu_row_def sub_table_def kv_row_def obj_def decimal_small digit_char_def)
  from inst have "storage_usage stub_ext sample_input =
        ''<div><h6>Storage Usage</h6><table>'' @ storage_thead @ ''<tbody>''
          @ (case map (\<lambda>k. storage_row stub_ext (fsSize sample_input ! k) k) [0..<length (fsSize sample_input)] of
            [] \<Rightarrow> []
          | r # rs \<Rightarrow> r @ concat (map (\<lambda>s. '','' @ s) rs))
          @ ''</tbody></table></div>''"
    by blast
  then have sc: "storage_usage stub_ext sample_input =
        ''<div><h6>Storage Usage</h6><table>'' @ storage_thead
          @ ''<tbody><tr><td>/</td><td>ext4</td><td>/dev/sda1</td><td><div>''
          @ progress_bar ''50''
          @ ''</div><div>50.00%</div></td><td>1 kB</td><td>1 kB</td><td>1 kB</td></tr>,<tr><td>/home</td><td>ext4</td><td>/dev/sdb1</td><td><div>''
          @ progress_bar ''25''
          @ ''</div><div>25.00%</div></td><td>1 kB</td><td>1 kB</td><td>1 kB</td></tr></tbody></table></div>''"
    unfolding f
    by (simp add: storage_row_def eval_text dbl_half dbl_quarter dbl_numeral)
  from lg ls gc sc show ?thesis by blast
qed

section \<open>An empty list of file systems\<close>

lemma html_of_split:
  "html_of x head i =
     (''<!DOCTYPE html><html lang=en>'' @ head @ ''<body><nav>System Information</nav>''
        @ cards_before_storage x i)
       @ storage_usage x i @ (cards_after_storage x i @ ''</body></html>'')"
  by (simp add: html_of_def)

lemma storage_usage_empty:
  "fsSize i = [] \<Longrightarrow>
     storage_usage x i =
       ''<div><h6>Storage Usage</h6><table>'' @ storage_thead @ ''<tbody></tbody></table></div>''"
  by (simp add: storage_usage_def storage_rows_def array_map_def interp_array_def card_html_def)

text \<open>
  Claim C8. When every probe is fulfilled and the list of file systems is empty, the
  request returns a document, and the document holds the card \<open>Storage Usage\<close> with its
  heading, the head of its table and an empty table body; for any snapshot whose list of
  file systems is empty the card has no row.
\<close>

theorem empty_filesystem_list_renders:
  assumes "\<forall>p. outcome h p = Ok" and "uptime_text_returns x h"
    and "si_fsSize h = Fulfilled []"
  shows "(\<exists>pre post.
            getHtmlForWebview x h =
              (Returned
                 (pre @ ''<div><h6>Storage Usage</h6><table>'' @ storage_thead
                    @ ''<tbody></tbody></table></div>'' @ post),
               probe_order))
    \<and> (fsSize i = [] \<longrightarrow>
          storage_rows x i = []
          \<and> storage_usage x i =
              ''<div><h6>Storage Usage</h6><table>'' @ storage_thead
                @ ''<tbody></tbody></table></div>'')"
proof -
  have m: "map_throwing (fsSize_entry x) [] = Inr []" by simp
  obtain j where j: "getHtmlForWebview x h
            = (Returned (html_of x (head_html (host_webview h) (colorTheme h) (host_nonce h)) j),
               probe_order)" "fsSize j = []"
    using all_fulfilled_returns [OF assms m] by blast
  have "\<exists>pre post.
            getHtmlForWebview x h =
              (Returned
                 (pre @ ''<div><h6>Storage Usage</h6><table>'' @ storage_thead
                    @ ''<tbody></tbody></table></div>'' @ post),
               probe_order)"
    unfolding j(1) html_of_split storage_usage_empty [OF j(2)]
    by (metis append.assoc)
  moreover have "fsSize i = [] \<longrightarrow>
          storage_rows x i = []
          \<and> storage_usage x i =
              ''<div><h6>Storage Usage</h6><table>'' @ storage_thead
                @ ''<tbody></tbody></table></div>''"
    using storage_usage_empty [of i x] by (simp add: storage_rows_def array_map_def)
  ultimately show ?thesis by blast
qed

lemma sample_all_ok: "outcome (sample_host\<lparr>si_fsSize := Fulfilled []\<rparr>) p = Ok"
  by (cases p) (simp_all add: sample_host_def)

text \<open>The theorem on the sample host without file systems.\<close>

theorem empty_filesystem_list_renders_witness:
  "outcome (sample_host\<lparr>si_fsSize := Fulfilled []\<rparr>) SiFsSize = Ok
    \<and> uptime_text_returns stub_ext (sample_host\<lparr>si_fsSize := Fulfilled []\<rparr>)
    \<and> si_fsSize (sample_host\<lparr>si_fsSize := Fulfilled []\<rparr>) = Fulfilled []
    \<and> fst (getHtmlForWebview stub_ext (sample_host\<lparr>si_fsSize := Fulfilled []\<rparr>))
        = Returned (html_of stub_ext (head_html (host_webview sample_host) Dark ''n0nce'')
            (sample_input\<lparr>fsSize := []\<rparr>))
    \<and> snd (getHtmlForWebview stub_ext (sample_host\<lparr>si_fsSize := Fulfilled []\<rparr>)) = probe_order
    \<and> fsSize (sample_input\<lparr>fsSize := []\<rparr>) = []
    \<and> storage_rows stub_ext (sample_input\<lparr>fsSize := []\<rparr>) = []"
proof -
  let ?h = "sample_host\<lparr>si_fsSize := Fulfilled []\<rparr>"
  let ?i = "sample_input\<lparr>fsSize := []\<rparr>"
  have a: "\<forall>p. outcome ?h p = Ok" using sample_all_ok by blast
  have u: "uptime_text_returns stub_ext ?h"
    by (simp add: uptime_text_returns_def sample_host_def uptime_text_def stub_ext_def)
  have f: "si_fsSize ?h = Fulfilled []" by simp
  have e: "fsSize ?i = []" by simp
  have r: "fst (getHtmlForWebview stub_ext ?h)
        = Returned (html_of stub_ext (head_html (host_webview sample_host) Dark ''n0nce'') ?i)"
    by (simp add: getHtmlForWebview_def sample_host_def sample_input_def uptime_text_def
        stub_ext_def return_async_def)
  from empty_filesystem_list_renders [OF a u f, of ?i]
  have "snd (getHtmlForWebview stub_ext ?h) = probe_order"
    and "storage_rows stub_ext ?i = []"
    using e by auto
  with a u f e r show ?thesis by blast
qed

section \<open>Values a host does not have\<close>

text \<open>
  Claim C9, as the panel has it. The table of the cores has one row for each core of the
  load sample, whatever the other probes delivered, and each row has its cells for speed
  and temperature. A cell is not given a placeholder: it holds the text that JavaScript
  makes of the value. Where the list of speeds or of temperatures has no entry for the
  core, that text is \<open>undefined\<close> (before \<open>Ghz\<close> in the speed cell); a \<open>null\<close> entry
  prints \<open>null\<close>.
\<close>

theorem absent_core_values_print_undefined:
  "length (cpu_rows x i) = length (load_cpus (currentLoad i))
    \<and> (\<forall>k<length (load_cpus (currentLoad i)).
          cpu_rows x i ! k =
            ''<tr><td>Core '' @ decimal (k + 1) @ ''</td><td><div>''
              @ progress_bar (number_toString x (cpu_load (load_cpus (currentLoad i) ! k)))
              @ ''</div><div>'' @ toFixed2 x (cpu_load (load_cpus (currentLoad i) ! k))
              @ ''%</div></td><td>'' @ cpu_speed_text x i k
              @ ''</td><td>'' @ cpu_temp_text x i k @ ''</td></tr>'')
    \<and> cpu_speed_text x i k =
          (if k < length (cores (cpuCurrentspeed i))
           then interp x (cores (cpuCurrentspeed i) ! k) else ''undefined'') @ '' Ghz''
    \<and> cpu_temp_text x i k =
          (if k < length (cores (cpuTemp i))
           then interp x (cores (cpuTemp i) ! k) else ''undefined'')
    \<and> interp x Undefined = ''undefined''
    \<and> interp x Null = ''null''"
  by (simp add: cpu_rows_def length_array_map nth_array_map cpu_row_def cpu_speed_text_def
      cpu_temp_text_def js_index_def)

text \<open>
  The theorem on the sample host, whose temperature probe reports no cores: the second
  core's row holds its speed and the text \<open>undefined\<close>.
\<close>

theorem absent_core_values_print_undefined_witness:
  "length (cpu_rows stub_ext sample_input) = 2
    \<and> cpu_speed_text stub_ext sample_input 1 = ''3 Ghz''
    \<and> cpu_temp_text stub_ext sample_input 1 = ''undefined''
    \<and> cpu_rows stub_ext sample_input ! 1 =
        ''<tr><td>Core 2</td><td><div>'' @ progress_bar ''20''
          @ ''</div><div>20.00%</div></td><td>3 Ghz</td><td>undefined</td></tr>''"
proof -
  have l: "load_cpus (currentLoad sample_input) = [\<lparr>cpu_load = Num 10\<rparr>, \<lparr>cpu_load = Num 20\<rparr>]"
    by (simp add: sample_input_def)
  have s: "cores (cpuCurrentspeed sample_input) = [JNum (Num 2), JNum (Num 3)]"
    by (simp add: sample_input_def)
  have t: "cores (cpuTemp sample_input) = []"
    by (simp add: sample_input_def)
  show ?thesis
    using absent_core_values_print_undefined [of stub_ext sample_input 1]
    unfolding l s t by (simp add: eval_text)
qed

text \<open>
  Against claim C9 as it is stated: the cells of a core without temperature or speed read
  \<open>undefined\<close> and \<open>undefined Ghz\<close>, and a \<open>null\<close> temperature reads \<open>null\<close>; none of
  them reads \<open>N/A\<close> or \<open>unavailable\<close>.
\<close>

theorem undefined_cell_counterexample:
  "cpu_temp_text stub_ext sample_input 0 = ''undefined''
    \<and> cpu_speed_text stub_ext (sample_input\<lparr>cpuCurrentspeed := \<lparr>cores = []\<rparr>\<rparr>) 0
        = ''undefined Ghz''
    \<and> cpu_temp_text stub_ext (sample_input\<lparr>cpuTemp := \<lparr>cores = [Null]\<rparr>\<rparr>) 0 = ''null''"
  by (simp add: cpu_temp_text_def cpu_speed_text_def js_index_def sample_input_def)

section \<open>The tracked panel\<close>

lemma run_calls_snoc: "run_calls (cs @ [c]) = panel_step (run_calls cs) c"
  by (simp add: run_calls_def)

lemma tracked_invariant:
  "(\<forall>q\<in>set (disposed_panels (run_calls cs)). q < constructed (run_calls cs))
    \<and> (\<forall>p. currentPanel (run_calls cs) = Some p
          \<longrightarrow> Suc p = constructed (run_calls cs) \<and> p \<notin> set (disposed_panels (run_calls cs)))"
proof (induction cs rule: rev_induct)
  case Nil
  then show ?case by (simp add: run_calls_def no_panels_def)
next
  case (snoc c cs)
  then show ?case
    by (cases c)
      (auto simp: run_calls_snoc createOrShow_def revive_def construct_panel_def dispose_def
        split: option.splits)
qed

text \<open>
  Claim C10. After every sequence of calls of \<open>createOrShow\<close>, \<open>revive\<close> and \<open>dispose\<close>,
  \<open>currentPanel\<close> tracks at most one instance, and the instance it tracks is the one
  constructed last and has not been disposed. \<open>createOrShow\<close> constructs an instance
  only when \<open>currentPanel\<close> is undefined, and tracks it; otherwise it reveals the tracked
  panel and changes nothing else. \<open>dispose\<close> leaves \<open>currentPanel\<close> undefined, and
  \<open>createOrShow\<close> after it constructs and tracks an instance that did not exist before.
\<close>

theorem one_tracked_panel:
  "card (set_option (currentPanel (run_calls cs))) \<le> 1
    \<and> (\<forall>p. currentPanel (run_calls cs) = Some p
          \<longrightarrow> Suc p = constructed (run_calls cs) \<and> p \<notin> set (disposed_panels (run_calls cs)))
    \<and> constructed (createOrShow (run_calls cs)) =
        (if currentPanel (run_calls cs) = None then Suc (constructed (run_calls cs))
         else constructed (run_calls cs))
    \<and> (\<forall>p. currentPanel (run_calls cs) = Some p
          \<longrightarrow> createOrShow (run_calls cs)
              = (run_calls cs)\<lparr>revealed := revealed (run_calls cs) @ [p]\<rparr>)
    \<and> (currentPanel (run_calls cs) = None
          \<longrightarrow> currentPanel (createOrShow (run_calls cs)) = Some (constructed (run_calls cs)))
    \<and> (\<forall>p. currentPanel (dispose p (run_calls cs)) = None
          \<and> constructed (dispose p (run_calls cs)) = constructed (run_calls cs)
          \<and> currentPanel (createOrShow (dispose p (run_calls cs)))
              = Some (constructed (run_calls cs))
          \<and> constructed (createOrShow (dispose p (run_calls cs)))
              = Suc (constructed (run_calls cs)))"
proof -
  have a: "card (set_option (currentPanel (run_calls cs))) \<le> 1"
    by (cases "currentPanel (run_calls cs)") simp_all
  have b: "\<forall>p. currentPanel (run_calls cs) = Some p
          \<longrightarrow> Suc p = constructed (run_calls cs) \<and> p \<notin> set (disposed_panels (run_calls cs))"
    using tracked_invariant [of cs] by blast
  show ?thesis
    using a b
    by (auto simp: createOrShow_def construct_panel_def dispose_def split: option.splits)
qed

text \<open>
  The theorem on three sequences: a second \<open>createOrShow\<close> only reveals; after \<open>dispose\<close>
  a \<open>createOrShow\<close> constructs the next instance.
\<close>

theorem one_tracked_panel_witness:
  "currentPanel (run_calls [CreateOrShow, CreateOrShow]) = Some 0
    \<and> constructed (run_calls [CreateOrShow, CreateOrShow]) = 1
    \<and> revealed (run_calls [CreateOrShow, CreateOrShow]) = [0]
    \<and> currentPanel (run_calls [CreateOrShow, Dispose 0]) = None
    \<and> currentPanel (createOrShow (run_calls [CreateOrShow, Dispose 0])) = Some 1
    \<and> currentPanel (run_calls [CreateOrShow, Revive, Dispose 0, CreateOrShow]) = Some 2"
proof -
  have r1: "currentPanel (run_calls [CreateOrShow, CreateOrShow]) = Some 0"
    by (simp add: run_calls_def no_panels_def createOrShow_def construct_panel_def)
  have r2: "revealed (run_calls [CreateOrShow, CreateOrShow]) = [0]"
    by (simp add: run_calls_def no_panels_def createOrShow_def construct_panel_def)
  have r3: "currentPanel (run_calls [CreateOrShow, Dispose 0]) = None"
    by (simp add: run_calls_def no_panels_def createOrShow_def construct_panel_def dispose_def)
  have r4: "constructed (run_calls [CreateOrShow, Dispose 0]) = 1"
    by (simp add: run_calls_def no_panels_def createOrShow_def construct_panel_def dispose_def)
  have r5: "currentPanel (run_calls [CreateOrShow, Revive, Dispose 0, CreateOrShow]) = Some 2"
    by (simp add: run_calls_def no_panels_def createOrShow_def construct_panel_def dispose_def
        revive_def)
  from one_tracked_panel [of "[CreateOrShow, CreateOrShow]"] r1
  have c1: "constructed (run_calls [CreateOrShow, CreateOrShow]) = 1" by simp
  from one_tracked_panel [of "[CreateOrShow, Dispose 0]"] r3 r4
  have c2: "currentPanel (createOrShow (run_calls [CreateOrShow, Dispose 0])) = Some 1"
    by simp
  from r1 r2 r3 r5 c1 c2 show ?thesis by blast
qed

end
